theory Spec2Isabelle
  imports Main "HOL-Library.Word"
begin

unbundle bit_operations_syntax

section \<open>The OpenCT reader backend (reader-openct.c)\<close>

text \<open>
  A shallow embedding of \<^verbatim>\<open>src/libopensc/reader-openct.c\<close>. C \<^verbatim>\<open>int\<close> values are
  HOL integers: the driver only compares and forwards them, it does no arithmetic on
  them. Values of type \<^verbatim>\<open>size_t\<close> are natural numbers, and the one addition the driver
  performs on them is taken modulo \<open>SIZE_MAX + 1\<close>. A pointer that may be \<^verbatim>\<open>NULL\<close> is an
  \<open>option\<close>.
\<close>

subsection \<open>Constants of the headers\<close>

text \<open>
  The driver includes \<^verbatim>\<open>internal.h\<close> (OpenSC) and \<^verbatim>\<open>openct/*.h\<close> (OpenCT). The
  values these headers give to the constants below are not part of the file, so every
  function of the model takes them as a parameter \<open>K\<close>.
\<close>

type_synonym u8 = "8 word"

record hdr =
  SC_NO_ERROR :: int
  SC_ERROR_READER :: int
  SC_ERROR_CARD_NOT_PRESENT :: int
  SC_ERROR_KEYPAD_TIMEOUT :: int
  SC_ERROR_KEYPAD_CANCELLED :: int
  SC_ERROR_READER_DETACHED :: int
  SC_ERROR_READER_REATTACHED :: int
  SC_ERROR_UNKNOWN_DATA_RECEIVED :: int
  SC_ERROR_INVALID_ARGUMENTS :: int
  SC_ERROR_BUFFER_TOO_SMALL :: int
  SC_ERROR_OUT_OF_MEMORY :: int
  IFD_ERROR_USER_TIMEOUT :: int
  IFD_ERROR_USER_ABORT :: int
  IFD_ERROR_NOT_CONNECTED :: int
  IFD_LOCK_EXCLUSIVE :: int
  IFD_PIN_ENCODING_ASCII :: nat
  IFD_PIN_ENCODING_BCD :: nat
  SC_PIN_ENCODING_ASCII :: nat
  SC_PIN_ENCODING_BCD :: nat
  SC_SLOT_CAP_DISPLAY :: nat
  SC_SLOT_CAP_PIN_PAD :: nat
  OPENCT_MAX_READERS :: nat
  SC_MAX_SLOTS :: nat
  SC_MAX_ATR_SIZE :: nat
  SIZE_MAX :: nat
  UINT_MAX :: nat

text \<open>\<^verbatim>\<open>#define PREALLOCATE 5\<close> is in the file itself.\<close>

definition PREALLOCATE :: nat where
  "PREALLOCATE = 5"

text \<open>
  The convention the driver relies on when it tests \<^verbatim>\<open>rc < 0\<close>: the OpenSC and OpenCT
  error codes are negative, success is zero. The two \<^verbatim>\<open>case\<close> labels of
  \<^verbatim>\<open>openct_error\<close> are different values (C rejects a duplicate label).
\<close>

definition hdr_ok :: "hdr \<Rightarrow> bool" where
  "hdr_ok K =
    (SC_NO_ERROR K = 0 \<and>
     SC_ERROR_READER K < 0 \<and>
     SC_ERROR_CARD_NOT_PRESENT K < 0 \<and>
     SC_ERROR_KEYPAD_TIMEOUT K < 0 \<and>
     SC_ERROR_KEYPAD_CANCELLED K < 0 \<and>
     SC_ERROR_READER_DETACHED K < 0 \<and>
     SC_ERROR_READER_REATTACHED K < 0 \<and>
     SC_ERROR_UNKNOWN_DATA_RECEIVED K < 0 \<and>
     SC_ERROR_INVALID_ARGUMENTS K < 0 \<and>
     SC_ERROR_BUFFER_TOO_SMALL K < 0 \<and>
     SC_ERROR_OUT_OF_MEMORY K < 0 \<and>
     IFD_ERROR_USER_TIMEOUT K < 0 \<and>
     IFD_ERROR_USER_ABORT K < 0 \<and>
     IFD_ERROR_NOT_CONNECTED K < 0 \<and>
     IFD_ERROR_USER_TIMEOUT K \<noteq> IFD_ERROR_USER_ABORT K)"

subsection \<open>The world outside the driver\<close>

text \<open>
  Every call that leaves the file is recorded, with its arguments, in a list of calls.
  \<^verbatim>\<open>ct_*\<close> are the primitives of the OpenCT library, \<^verbatim>\<open>calloc\<close>, \<^verbatim>\<open>strdup\<close> and
  \<^verbatim>\<open>free\<close> come from libc, \<^verbatim>\<open>_sc_add_reader\<close> from the OpenSC context code.
\<close>

type_synonym ct_handle = nat
type_synonym ct_lock_handle = nat

datatype call =
    CtReaderInfo nat
  | CtReaderConnect nat
  | CtReaderDisconnect "ct_handle option"
  | CtCardRequest "ct_handle option" nat nat "string option" nat
  | CtCardTransact "ct_handle option" nat "u8 list" nat nat
  | CtCardVerify "ct_handle option" nat nat "string option" nat nat nat "u8 list" nat nat
  | CtCardLock "ct_handle option" nat int
  | CtCardUnlock "ct_handle option" nat ct_lock_handle
  | Calloc
  | Strdup string
  | Free
  | ScAddReader

record ct_info_t =
  ct_name :: string
  ct_slots :: nat
  ct_display :: bool
  ct_keypad :: bool

text \<open>
  The answers of the outside world. Each function is given the calls made so far, the
  last of which is the call it answers, so an answer may depend on everything that
  happened before. A primitive that fills a buffer of the caller returns, next to its
  return code, the bytes it wrote at the start of that buffer.
\<close>

record env =
  ct_reader_info :: "call list \<Rightarrow> int \<times> ct_info_t"
  ct_reader_connect :: "call list \<Rightarrow> ct_handle option"
  ct_card_request :: "call list \<Rightarrow> int \<times> u8 list"
  ct_card_transact :: "call list \<Rightarrow> int \<times> u8 list"
  ct_card_verify :: "call list \<Rightarrow> int \<times> u8 list"
  ct_card_lock :: "call list \<Rightarrow> int \<times> ct_lock_handle option"
  ct_card_unlock :: "call list \<Rightarrow> int"
  calloc_ok :: "call list \<Rightarrow> bool"
  strdup_ok :: "call list \<Rightarrow> bool"
  sc_add_reader_rc :: "call list \<Rightarrow> int"

text \<open>Writing \<open>out\<close> at the start of a buffer leaves the rest of the buffer as it was.\<close>

definition written :: "u8 list \<Rightarrow> u8 list \<Rightarrow> u8 list" where
  "written out buf = out @ drop (length out) buf"

subsection \<open>Private data structures\<close>

record driver_data =
  h :: "ct_handle option"
  num :: nat
  info :: ct_info_t

record slot_data =
  excl_lock :: ct_lock_handle
  shared_lock :: ct_lock_handle

text \<open>
  \<^verbatim>\<open>struct sc_slot_info\<close>, with the fields the driver uses. The field \<^verbatim>\<open>id\<close> is
  \<open>slot_id\<close> here.
\<close>

record sc_slot_info =
  slot_id :: nat
  flags :: nat
  capabilities :: nat
  atr :: "u8 list"
  atr_len :: nat
  drv_data :: "slot_data option"

text \<open>
  What an operation on \<^verbatim>\<open>(reader, slot)\<close> reads and changes: the calls made so far,
  \<^verbatim>\<open>*reader->drv_data\<close> (the local variable \<^verbatim>\<open>data\<close> of every operation) and
  \<^verbatim>\<open>*slot\<close>.
\<close>

record world =
  calls :: "call list"

record mem = world +
  data :: driver_data
  slot :: sc_slot_info

subsection \<open>Error translation\<close>

definition openct_error :: "hdr \<Rightarrow> int \<Rightarrow> int" where
  "openct_error K code =
    (if code \<ge> 0 then code
     else if code = IFD_ERROR_USER_TIMEOUT K then SC_ERROR_KEYPAD_TIMEOUT K
     else if code = IFD_ERROR_USER_ABORT K then SC_ERROR_KEYPAD_CANCELLED K
     else SC_ERROR_READER K)"

subsection \<open>Connecting\<close>

text \<open>\<^verbatim>\<open>if (data->h) ct_reader_disconnect(data->h);\<close>\<close>

definition disconnect_calls :: "ct_handle option \<Rightarrow> call list" where
  "disconnect_calls x = (case x of None \<Rightarrow> [] | Some c \<Rightarrow> [CtReaderDisconnect (Some c)])"

definition openct_reader_connect :: "hdr \<Rightarrow> env \<Rightarrow> mem \<Rightarrow> int \<times> mem" where
  "openct_reader_connect K E s =
    (let t1 = calls s @ disconnect_calls (h (data s));
         t2 = t1 @ [CtReaderConnect (num (data s))];
         c = ct_reader_connect E t2;
         s2 = s\<lparr>calls := t2, data := (data s)\<lparr>h := c\<rparr>\<rparr>
     in if c = None then (SC_ERROR_CARD_NOT_PRESENT K, s2)
        else
          let t3 = t2 @ [CtCardRequest c (slot_id (slot s)) 0 None (SC_MAX_ATR_SIZE K)];
              (rc, out) = ct_card_request E t3;
              s3 = s2\<lparr>calls := t3, slot := (slot s)\<lparr>atr := written out (atr (slot s))\<rparr>\<rparr>
          in if rc < 0 then (SC_ERROR_CARD_NOT_PRESENT K, s3)
             else if rc = 0 then (SC_ERROR_READER K, s3)
             else (SC_NO_ERROR K, s3\<lparr>slot := (slot s3)\<lparr>atr_len := nat rc\<rparr>\<rparr>))"

definition openct_reader_reconnect :: "hdr \<Rightarrow> env \<Rightarrow> mem \<Rightarrow> int \<times> mem" where
  "openct_reader_reconnect K E s =
    (if h (data s) \<noteq> None then (0, s)
     else
       let (rc, s1) = openct_reader_connect K E s
       in if rc < 0 then (SC_ERROR_READER_DETACHED K, s1)
          else (SC_ERROR_READER_REATTACHED K, s1))"

definition openct_reader_disconnect :: "hdr \<Rightarrow> env \<Rightarrow> mem \<Rightarrow> int \<Rightarrow> int \<times> mem" where
  "openct_reader_disconnect K E s action =
    (SC_NO_ERROR K,
     s\<lparr>calls := calls s @ disconnect_calls (h (data s)), data := (data s)\<lparr>h := None\<rparr>\<rparr>)"

subsection \<open>Transmitting\<close>

text \<open>
  The result is the return code, the memory, the receive buffer and \<^verbatim>\<open>*recvsize\<close>
  after the call. The driver does not write to the receive buffer itself: it passes the
  buffer and \<^verbatim>\<open>*recvsize\<close> to \<^verbatim>\<open>ct_card_transact\<close>.
\<close>

definition openct_reader_transmit ::
  "hdr \<Rightarrow> env \<Rightarrow> mem \<Rightarrow> u8 list \<Rightarrow> nat \<Rightarrow> u8 list \<Rightarrow> nat \<Rightarrow> int
     \<Rightarrow> int \<times> mem \<times> u8 list \<times> nat" where
  "openct_reader_transmit K E s sendbuf sendsize recvbuf recvsize control =
    (let (rc0, s1) = openct_reader_reconnect K E s
     in if rc0 < 0 then (rc0, s1, recvbuf, recvsize)
        else
          let t = calls s1 @
                [CtCardTransact (h (data s1)) (slot_id (slot s1)) sendbuf sendsize recvsize];
              (rc, out) = ct_card_transact E t;
              recvbuf1 = written out recvbuf
          in if rc = IFD_ERROR_NOT_CONNECTED K then
               (SC_ERROR_READER_DETACHED K,
                s1\<lparr>calls := t @ [CtReaderDisconnect (h (data s1))],
                   data := (data s1)\<lparr>h := None\<rparr>\<rparr>,
                recvbuf1, recvsize)
             else
               (openct_error K rc, s1\<lparr>calls := t\<rparr>, recvbuf1,
                if rc \<ge> 0 then nat rc else recvsize))"

subsection \<open>PIN verification on the reader\<close>

text \<open>
  \<^verbatim>\<open>struct sc_apdu\<close> and \<^verbatim>\<open>struct sc_pin_cmd_data\<close>, with the fields the driver
  uses. The field \<^verbatim>\<open>data\<close> of the APDU is \<open>apdu_data\<close>: the bytes its pointer
  refers to.
\<close>

record sc_apdu =
  cla :: u8
  ins :: u8
  p1 :: u8
  p2 :: u8
  lc :: nat
  apdu_data :: "u8 list"
  sw1 :: nat
  sw2 :: nat

record sc_pin_cmd_pin =
  prompt :: "string option"
  min_length :: nat
  max_length :: nat
  encoding :: nat
  offset :: nat

record sc_pin_cmd_data =
  pin1 :: sc_pin_cmd_pin
  apdu :: "sc_apdu option"

text \<open>
  Conversion of a \<^verbatim>\<open>size_t\<close> to \<^verbatim>\<open>unsigned int\<close>: the local variable
  \<^verbatim>\<open>pin_length\<close>, and the PIN offset, which \<^verbatim>\<open>ct_card_verify\<close> takes as an
  \<^verbatim>\<open>unsigned int\<close>.
\<close>

definition to_uint :: "hdr \<Rightarrow> nat \<Rightarrow> nat" where
  "to_uint K n = n mod (UINT_MAX K + 1)"

text \<open>
  Lines 322 to 335: the command frame in \<^verbatim>\<open>u8 buf[254]\<close>. \<open>Inl rc\<close> is the early
  return, \<open>Inr buf\<close> the first \<^verbatim>\<open>j\<close> bytes of the buffer. The sum \<^verbatim>\<open>j + 1 + len\<close> is
  computed in \<^verbatim>\<open>size_t\<close>. Where the test lets a \<^verbatim>\<open>memcpy\<close> through that reads
  beyond the data field or writes beyond the buffer, the behaviour of the C program is
  undefined: the result is \<open>None\<close>.
\<close>

definition verify_frame :: "hdr \<Rightarrow> sc_apdu \<Rightarrow> (int + u8 list) option" where
  "verify_frame K a =
    (let buf = [cla a, ins a, p1 a, p2 a]; j = 4
     in if lc a \<noteq> 0 then
          let len = lc a
          in if (j + 1 + len) mod (SIZE_MAX K + 1) > 254 then
               Some (Inl (SC_ERROR_BUFFER_TOO_SMALL K))
             else if j + 1 + len > 254 \<or> length (apdu_data a) < len then None
             else Some (Inr (buf @ [word_of_nat len] @ take len (apdu_data a)))
        else Some (Inr buf))"

definition verify_pin_encoding :: "hdr \<Rightarrow> nat \<Rightarrow> nat option" where
  "verify_pin_encoding K e =
    (if e = SC_PIN_ENCODING_ASCII K then Some (IFD_PIN_ENCODING_ASCII K)
     else if e = SC_PIN_ENCODING_BCD K then Some (IFD_PIN_ENCODING_BCD K)
     else None)"

definition openct_reader_perform_verify ::
  "hdr \<Rightarrow> env \<Rightarrow> mem \<Rightarrow> sc_pin_cmd_data \<Rightarrow> (int \<times> mem \<times> sc_pin_cmd_data) option" where
  "openct_reader_perform_verify K E s cmd =
    (let (rc0, s1) = openct_reader_reconnect K E s
     in if rc0 < 0 then Some (rc0, s1, cmd)
        else
          case apdu cmd of
            None \<Rightarrow> Some (SC_ERROR_INVALID_ARGUMENTS K, s1, cmd)
          | Some a \<Rightarrow>
             (case verify_frame K a of
                None \<Rightarrow> None
              | Some (Inl rc) \<Rightarrow> Some (rc, s1, cmd)
              | Some (Inr buf) \<Rightarrow>
                 (let pin_length =
                        (if min_length (pin1 cmd) = max_length (pin1 cmd)
                         then to_uint K (min_length (pin1 cmd)) else 0)
                  in case verify_pin_encoding K (encoding (pin1 cmd)) of
                       None \<Rightarrow> Some (SC_ERROR_INVALID_ARGUMENTS K, s1, cmd)
                     | Some pin_encoding \<Rightarrow>
                        (let t = calls s1 @
                               [CtCardVerify (h (data s1)) (slot_id (slot s1)) 0
                                  (prompt (pin1 cmd)) pin_encoding pin_length
                                  (to_uint K (offset (pin1 cmd))) buf (length buf) 254];
                             (rc, out) = ct_card_verify E t;
                             buf1 = written out buf;
                             s2 = s1\<lparr>calls := t\<rparr>
                         in if rc < 0 then Some (openct_error K rc, s2, cmd)
                            else if rc \<noteq> 2 then
                              Some (SC_ERROR_UNKNOWN_DATA_RECEIVED K, s2, cmd)
                            else
                              Some (0, s2,
                                cmd\<lparr>apdu := Some (a\<lparr>sw1 := unat (buf1 ! 0),
                                                       sw2 := unat (buf1 ! 1)\<rparr>)\<rparr>)))))"

subsection \<open>Locking\<close>

text \<open>
  \<^verbatim>\<open>slot->drv_data\<close> is the result of an unchecked \<^verbatim>\<open>calloc\<close> and may be
  \<^verbatim>\<open>NULL\<close>; using the lock handle behind it is then undefined (\<open>None\<close>).
  \<^verbatim>\<open>ct_card_lock\<close> returns its code and the lock handle it stored, if it stored one.
\<close>

definition openct_reader_lock :: "hdr \<Rightarrow> env \<Rightarrow> mem \<Rightarrow> (int \<times> mem) option" where
  "openct_reader_lock K E s =
    (let (rc0, s1) = openct_reader_reconnect K E s
     in if rc0 < 0 then Some (rc0, s1)
        else
          case drv_data (slot s1) of
            None \<Rightarrow> None
          | Some sd \<Rightarrow>
             (let t = calls s1 @
                    [CtCardLock (h (data s1)) (slot_id (slot s1)) (IFD_LOCK_EXCLUSIVE K)];
                  (rc, lk) = ct_card_lock E t;
                  sd1 = (case lk of None \<Rightarrow> sd | Some l \<Rightarrow> sd\<lparr>excl_lock := l\<rparr>);
                  s2 = s1\<lparr>calls := t, slot := (slot s1)\<lparr>drv_data := Some sd1\<rparr>\<rparr>
              in if rc = IFD_ERROR_NOT_CONNECTED K then
                   Some (SC_ERROR_READER_DETACHED K,
                         s2\<lparr>calls := t @ [CtReaderDisconnect (h (data s1))],
                            data := (data s1)\<lparr>h := None\<rparr>\<rparr>)
                 else Some (openct_error K rc, s2)))"

definition openct_reader_unlock :: "hdr \<Rightarrow> env \<Rightarrow> mem \<Rightarrow> (int \<times> mem) option" where
  "openct_reader_unlock K E s =
    (case drv_data (slot s) of
       None \<Rightarrow> None
     | Some sd \<Rightarrow>
        (let t = calls s @
               [CtCardUnlock (h (data s)) (slot_id (slot s)) (excl_lock sd)];
             rc = ct_card_unlock E t
         in if rc = IFD_ERROR_NOT_CONNECTED K then Some (0, s\<lparr>calls := t\<rparr>)
            else Some (openct_error K rc, s\<lparr>calls := t\<rparr>)))"

subsection \<open>Initialising the readers\<close>

text \<open>
  \<^verbatim>\<open>struct sc_reader\<close>, with the fields the driver sets; its fields \<^verbatim>\<open>drv_data\<close>
  and \<^verbatim>\<open>slot\<close> are \<open>reader_drv_data\<close> and \<open>reader_slot\<close>. The context holds the
  readers registered so far.
\<close>

record sc_reader =
  reader_drv_data :: driver_data
  name :: "string option"
  slot_count :: int
  reader_slot :: "sc_slot_info list"

record sc_context = world +
  reader :: "sc_reader list"

text \<open>A slot of a reader that \<^verbatim>\<open>calloc\<close> has just returned: all zero.\<close>

definition zero_slot :: "hdr \<Rightarrow> sc_slot_info" where
  "zero_slot K =
    \<lparr>slot_id = 0, flags = 0, capabilities = 0, atr = replicate (SC_MAX_ATR_SIZE K) 0,
     atr_len = 0, drv_data = None\<rparr>"

text \<open>The loop of lines 138 to 145, over the slot indices still to do.\<close>

fun init_slots ::
  "hdr \<Rightarrow> env \<Rightarrow> ct_info_t \<Rightarrow> call list \<Rightarrow> nat list \<Rightarrow> call list \<times> sc_slot_info list" where
  "init_slots K E ci t [] = (t, [])"
| "init_slots K E ci t (i # is) =
    (let t1 = t @ [Calloc];
         c0 = capabilities (zero_slot K);
         c1 = (if ct_display ci then c0 OR SC_SLOT_CAP_DISPLAY K else c0);
         c2 = (if ct_keypad ci then c1 OR SC_SLOT_CAP_PIN_PAD K else c1);
         sl = (zero_slot K)
               \<lparr>slot_id := i, capabilities := c2,
                drv_data := (if calloc_ok E t1
                             then Some \<lparr>excl_lock = 0, shared_lock = 0\<rparr> else None)\<rparr>;
         (t2, sls) = init_slots K E ci t1 is
     in (t2, sl # sls))"

text \<open>
  Conversion of the \<^verbatim>\<open>unsigned int\<close> \<^verbatim>\<open>ct_slots\<close> to the \<^verbatim>\<open>int\<close>
  \<^verbatim>\<open>slot_count\<close>: a value above \<^verbatim>\<open>INT_MAX\<close> comes out negative.
\<close>

definition uint_to_int :: "hdr \<Rightarrow> nat \<Rightarrow> int" where
  "uint_to_int K n =
    (if n \<le> UINT_MAX K div 2 then int n else int n - (int (UINT_MAX K) + 1))"

text \<open>
  Modelled from the spec: \<^verbatim>\<open>_sc_add_reader\<close> belongs to the OpenSC context code and is
  not in the file. Its return code is an answer of the outside world
  (\<open>sc_add_reader_rc\<close>); following the spec's Registry, which owns every Reader that is
  created, the reader is in the context, behind the readers already there, when the
  call does not fail, and the context is as before when it fails.
\<close>

definition sc_add_reader :: "env \<Rightarrow> sc_context \<Rightarrow> sc_reader \<Rightarrow> int \<times> sc_context" where
  "sc_add_reader E ctx r =
    (let t = calls ctx @ [ScAddReader];
         rc = sc_add_reader_rc E t
     in if rc < 0 then (rc, ctx\<lparr>calls := t\<rparr>)
        else (rc, ctx\<lparr>calls := t, reader := reader ctx @ [r]\<rparr>))"

text \<open>Lines 117 to 122: \<^verbatim>\<open>data->info\<close>, in a \<^verbatim>\<open>*data\<close> that was all zero.\<close>

definition data_info :: "ct_info_t option \<Rightarrow> ct_info_t" where
  "data_info ci =
    (case ci of
       Some x \<Rightarrow> x
     | None \<Rightarrow> \<lparr>ct_name = ''OpenCT reader (detached)'', ct_slots = 1,
                ct_display = False, ct_keypad = False\<rparr>)"

text \<open>
  \<^verbatim>\<open>openct_add_reader\<close>, lines 103 to 148. The context holds the reader by its
  address, so the slots written by the loop at the end are those of the reader that
  was registered last.
\<close>

definition openct_add_reader ::
  "hdr \<Rightarrow> env \<Rightarrow> sc_context \<Rightarrow> nat \<Rightarrow> ct_info_t option \<Rightarrow> int \<times> sc_context" where
  "openct_add_reader K E ctx n ci =
    (let t1 = calls ctx @ [Calloc]
     in if \<not> calloc_ok E t1 then (SC_ERROR_OUT_OF_MEMORY K, ctx\<lparr>calls := t1\<rparr>)
        else
          let t2 = t1 @ [Calloc]
          in if \<not> calloc_ok E t2 then
               (SC_ERROR_OUT_OF_MEMORY K, ctx\<lparr>calls := t2 @ [Free]\<rparr>)
             else
               let i = data_info ci;
                   d = \<lparr>h = None, num = n, info = i\<rparr>;
                   t3 = t2 @ [Strdup (ct_name i)];
                   nm = (if strdup_ok E t3 then Some (ct_name i) else None);
                   r = \<lparr>reader_drv_data = d, name = nm,
                        slot_count = uint_to_int K (ct_slots i),
                        reader_slot = replicate (SC_MAX_SLOTS K) (zero_slot K)\<rparr>;
                   (rc, c1) = sc_add_reader E (ctx\<lparr>calls := t3\<rparr>) r
               in if rc < 0 then (rc, c1\<lparr>calls := calls c1 @ [Free, Free, Free]\<rparr>)
                  else
                    let (t5, sls) = init_slots K E i (calls c1) [0..<SC_MAX_SLOTS K]
                    in (0, c1\<lparr>calls := t5,
                              reader := butlast (reader c1) @ [r\<lparr>reader_slot := sls\<rparr>]\<rparr>))"

text \<open>
  One round of the loop of \<^verbatim>\<open>openct_reader_init\<close>. The return value of
  \<^verbatim>\<open>openct_add_reader\<close> is not used.
\<close>

definition init_step :: "hdr \<Rightarrow> env \<Rightarrow> sc_context \<Rightarrow> nat \<Rightarrow> sc_context" where
  "init_step K E ctx i =
    (let t = calls ctx @ [CtReaderInfo i];
         (rc, ci) = ct_reader_info E t;
         c1 = ctx\<lparr>calls := t\<rparr>
     in if rc \<ge> 0 then snd (openct_add_reader K E c1 i (Some ci))
        else if i < PREALLOCATE then snd (openct_add_reader K E c1 i None)
        else c1)"

primrec init_loop :: "hdr \<Rightarrow> env \<Rightarrow> sc_context \<Rightarrow> nat list \<Rightarrow> sc_context" where
  "init_loop K E ctx [] = ctx"
| "init_loop K E ctx (i # is) = init_loop K E (init_step K E ctx i) is"

definition openct_reader_init :: "hdr \<Rightarrow> env \<Rightarrow> sc_context \<Rightarrow> int \<times> sc_context" where
  "openct_reader_init K E ctx =
    (SC_NO_ERROR K, init_loop K E ctx [0..<OPENCT_MAX_READERS K])"

subsection \<open>Traces of the calls an operation makes\<close>

text \<open>The calls made when \<^verbatim>\<open>openct_reader_connect\<close> has asked for a handle.\<close>

definition connect_trace :: "mem \<Rightarrow> call list" where
  "connect_trace s =
    calls s @ disconnect_calls (h (data s)) @ [CtReaderConnect (num (data s))]"

text \<open>The calls made when it has issued the card request on the handle \<open>c\<close>.\<close>

definition request_trace :: "hdr \<Rightarrow> mem \<Rightarrow> ct_handle \<Rightarrow> call list" where
  "request_trace K s c =
    connect_trace s @ [CtCardRequest (Some c) (slot_id (slot s)) 0 None (SC_MAX_ATR_SIZE K)]"

text \<open>The calls made when an operation in memory \<open>s1\<close> has called the card transaction.\<close>

definition transact_trace :: "mem \<Rightarrow> u8 list \<Rightarrow> nat \<Rightarrow> nat \<Rightarrow> call list" where
  "transact_trace s1 sendbuf sendsize recvsize =
    calls s1 @ [CtCardTransact (h (data s1)) (slot_id (slot s1)) sendbuf sendsize recvsize]"

definition lock_trace :: "hdr \<Rightarrow> mem \<Rightarrow> call list" where
  "lock_trace K s1 =
    calls s1 @ [CtCardLock (h (data s1)) (slot_id (slot s1)) (IFD_LOCK_EXCLUSIVE K)]"

definition unlock_trace :: "mem \<Rightarrow> slot_data \<Rightarrow> call list" where
  "unlock_trace s sd =
    calls s @ [CtCardUnlock (h (data s)) (slot_id (slot s)) (excl_lock sd)]"

text \<open>
  The rounds of the loop of \<^verbatim>\<open>openct_reader_init\<close>: the context at the start of
  round \<open>i\<close>, and the context after the query of round \<open>i\<close>, in which
  \<^verbatim>\<open>openct_add_reader\<close> is called, if it is called.
\<close>

definition round_start :: "hdr \<Rightarrow> env \<Rightarrow> sc_context \<Rightarrow> nat \<Rightarrow> sc_context" where
  "round_start K E ctx i = init_loop K E ctx [0..<i]"

definition round_query :: "hdr \<Rightarrow> env \<Rightarrow> sc_context \<Rightarrow> nat \<Rightarrow> sc_context" where
  "round_query K E ctx i =
    (round_start K E ctx i)\<lparr>calls := calls (round_start K E ctx i) @ [CtReaderInfo i]\<rparr>"

text \<open>
  Whether the round in the context \<open>q\<close> creates a reader (there is metadata, or the
  index is below \<^verbatim>\<open>PREALLOCATE\<close>), and the metadata it passes on.
\<close>

definition round_wanted :: "env \<Rightarrow> sc_context \<Rightarrow> nat \<Rightarrow> bool" where
  "round_wanted E q i = (0 \<le> fst (ct_reader_info E (calls q)) \<or> i < PREALLOCATE)"

definition round_arg :: "env \<Rightarrow> sc_context \<Rightarrow> ct_info_t option" where
  "round_arg E q =
    (if 0 \<le> fst (ct_reader_info E (calls q)) then Some (snd (ct_reader_info E (calls q)))
     else None)"

text \<open>
  Whether the two allocations of \<^verbatim>\<open>openct_add_reader\<close>, called in the context \<open>q\<close>,
  succeed, and the calls made when it has called \<^verbatim>\<open>_sc_add_reader\<close>.
\<close>

definition allocs_ok :: "env \<Rightarrow> sc_context \<Rightarrow> bool" where
  "allocs_ok E q =
    (calloc_ok E (calls q @ [Calloc]) \<and> calloc_ok E (calls q @ [Calloc, Calloc]))"

definition register_trace :: "sc_context \<Rightarrow> ct_info_t option \<Rightarrow> call list" where
  "register_trace q ci =
    calls q @ [Calloc, Calloc, Strdup (ct_name (data_info ci)), ScAddReader]"

fun is_verify :: "call \<Rightarrow> bool" where
  "is_verify (CtCardVerify c sl tmo pr enc len off buf n cap) = True"
| "is_verify _ = False"

text \<open>The reader indices asked of \<^verbatim>\<open>ct_reader_info\<close>, in the order of the calls.\<close>

fun info_queries :: "call list \<Rightarrow> nat list" where
  "info_queries [] = []"
| "info_queries (CtReaderInfo i # t) = i # info_queries t"
| "info_queries (c # t) = info_queries t"

subsection \<open>Concrete headers, worlds and memories for the examples\<close>

text \<open>An assignment of the header constants that follows the convention \<open>hdr_ok\<close>.\<close>

definition K0 :: hdr where
  "K0 =
    \<lparr>SC_NO_ERROR = 0, SC_ERROR_READER = - 1100, SC_ERROR_CARD_NOT_PRESENT = - 1104,
     SC_ERROR_KEYPAD_TIMEOUT = - 1108, SC_ERROR_KEYPAD_CANCELLED = - 1109,
     SC_ERROR_READER_DETACHED = - 1114, SC_ERROR_READER_REATTACHED = - 1115,
     SC_ERROR_UNKNOWN_DATA_RECEIVED = - 1213, SC_ERROR_INVALID_ARGUMENTS = - 1300,
     SC_ERROR_BUFFER_TOO_SMALL = - 1303, SC_ERROR_OUT_OF_MEMORY = - 1404,
     IFD_ERROR_USER_TIMEOUT = - 12, IFD_ERROR_USER_ABORT = - 13,
     IFD_ERROR_NOT_CONNECTED = - 103, IFD_LOCK_EXCLUSIVE = 1,
     IFD_PIN_ENCODING_ASCII = 1, IFD_PIN_ENCODING_BCD = 0,
     SC_PIN_ENCODING_ASCII = 0, SC_PIN_ENCODING_BCD = 1,
     SC_SLOT_CAP_DISPLAY = 1, SC_SLOT_CAP_PIN_PAD = 2,
     OPENCT_MAX_READERS = 16, SC_MAX_SLOTS = 4, SC_MAX_ATR_SIZE = 33,
     SIZE_MAX = 4294967295, UINT_MAX = 4294967295\<rparr>"

text \<open>
  A world with no reader: no metadata, no handle, every primitive fails with a generic
  error; memory can be allocated and the context accepts readers.
\<close>

definition E_none :: env where
  "E_none =
    \<lparr>ct_reader_info = (\<lambda>t. (- 1, \<lparr>ct_name = [], ct_slots = 0, ct_display = False,
                                      ct_keypad = False\<rparr>)),
     ct_reader_connect = (\<lambda>t. None),
     ct_card_request = (\<lambda>t. (- 1, [])),
     ct_card_transact = (\<lambda>t. (- 1, [])),
     ct_card_verify = (\<lambda>t. (- 1, [])),
     ct_card_lock = (\<lambda>t. (- 1, None)),
     ct_card_unlock = (\<lambda>t. - 1),
     calloc_ok = (\<lambda>t. True),
     strdup_ok = (\<lambda>t. True),
     sc_add_reader_rc = (\<lambda>t. 0)\<rparr>"

text \<open>A world in which reader 0 answers: handle 7, an ATR of two bytes.\<close>

definition E_card :: env where
  "E_card =
    E_none\<lparr>ct_reader_connect := (\<lambda>t. Some 7), ct_card_request := (\<lambda>t. (2, [0x3B, 0x00]))\<rparr>"

text \<open>A transport that answers a transaction with the status word \<^verbatim>\<open>90 00\<close>.\<close>

definition E_ok :: env where
  "E_ok = E_card\<lparr>ct_card_transact := (\<lambda>t. (2, [0x90, 0x00]))\<rparr>"

text \<open>A transport that writes two bytes and reports five.\<close>

definition E_liar :: env where
  "E_liar = E_card\<lparr>ct_card_transact := (\<lambda>t. (5, [0x90, 0x00]))\<rparr>"

text \<open>A transport whose reader has gone: every card primitive says "not connected".\<close>

definition E_gone :: env where
  "E_gone =
    E_none\<lparr>ct_card_transact := (\<lambda>t. (- 103, [])), ct_card_lock := (\<lambda>t. (- 103, None)),
            ct_card_unlock := (\<lambda>t. - 103)\<rparr>"

text \<open>A world in which the first allocation fails and every later one succeeds.\<close>

definition E_oom1 :: env where
  "E_oom1 = E_none\<lparr>calloc_ok := (\<lambda>t. Calloc \<in> set (butlast t))\<rparr>"

definition slot0 :: sc_slot_info where
  "slot0 =
    \<lparr>slot_id = 0, flags = 0, capabilities = 0, atr = replicate 33 0, atr_len = 0,
     drv_data = Some \<lparr>excl_lock = 0, shared_lock = 0\<rparr>\<rparr>"

definition info0 :: ct_info_t where
  "info0 = \<lparr>ct_name = ''OpenCT reader (detached)'', ct_slots = 1, ct_display = False,
            ct_keypad = False\<rparr>"

text \<open>Reader 0 with the handle 7, and the same reader without a handle.\<close>

definition s_conn :: mem where
  "s_conn = \<lparr>calls = [], data = \<lparr>h = Some 7, num = 0, info = info0\<rparr>, slot = slot0\<rparr>"

definition s_disc :: mem where
  "s_disc = \<lparr>calls = [], data = \<lparr>h = None, num = 0, info = info0\<rparr>, slot = slot0\<rparr>"

definition ctx0 :: sc_context where
  "ctx0 = \<lparr>calls = [], reader = []\<rparr>"

text \<open>
  A VERIFY template with a data field of \<open>d\<close> bytes, and a PIN command around it with
  the encoding \<open>e\<close>.
\<close>

definition apdu_of :: "nat \<Rightarrow> sc_apdu" where
  "apdu_of d =
    \<lparr>cla = 0x00, ins = 0x20, p1 = 0x00, p2 = 0x01, lc = d, apdu_data = replicate d 0xFF,
     sw1 = 0, sw2 = 0\<rparr>"

definition cmd_of :: "nat \<Rightarrow> nat \<Rightarrow> sc_pin_cmd_data" where
  "cmd_of d e =
    \<lparr>pin1 = \<lparr>prompt = None, min_length = 4, max_length = 8, encoding = e, offset = 5\<rparr>,
     apdu = Some (apdu_of d)\<rparr>"

section \<open>Facts shared by the proofs\<close>

lemma K0_ok: "hdr_ok K0" by (simp add: hdr_ok_def K0_def)

lemma reconnect_connected:
  "h (data s) \<noteq> None \<Longrightarrow> openct_reader_reconnect K E s = (0, s)"
  by (simp add: openct_reader_reconnect_def)

lemma reconnect_disconnected:
  "h (data s) = None \<Longrightarrow>
   openct_reader_reconnect K E s =
     (if fst (openct_reader_connect K E s) < 0 then SC_ERROR_READER_DETACHED K
      else SC_ERROR_READER_REATTACHED K, snd (openct_reader_connect K E s))"
  by (simp add: openct_reader_reconnect_def split: prod.splits)

lemma connect_calls:
  "\<exists>tl. calls (snd (openct_reader_connect K E s)) = connect_trace s @ tl"
  by (auto simp: openct_reader_connect_def connect_trace_def Let_def split: prod.splits)

lemma connect_codes:
  "fst (openct_reader_connect K E s) \<in>
     {SC_ERROR_CARD_NOT_PRESENT K, SC_ERROR_READER K, SC_NO_ERROR K}"
  by (auto simp: openct_reader_connect_def Let_def split: prod.splits)

section \<open>Error translation is a closed, total mapping\<close>

text \<open>
  Claim C8. \<open>openct_error\<close> is defined on every integer code. A code that is not negative
  is returned unchanged; the user-timeout code gives \<^verbatim>\<open>SC_ERROR_KEYPAD_TIMEOUT\<close>, the
  user-abort code gives \<^verbatim>\<open>SC_ERROR_KEYPAD_CANCELLED\<close>, and every other negative code
  gives the generic \<^verbatim>\<open>SC_ERROR_READER\<close>. The two OpenCT codes are negative and
  different, as the header convention says.
\<close>

theorem openct_error_total:
  assumes "IFD_ERROR_USER_TIMEOUT K < 0" and "IFD_ERROR_USER_ABORT K < 0"
    and "IFD_ERROR_USER_TIMEOUT K \<noteq> IFD_ERROR_USER_ABORT K"
  shows "(0 \<le> code \<longrightarrow> openct_error K code = code) \<and>
         openct_error K (IFD_ERROR_USER_TIMEOUT K) = SC_ERROR_KEYPAD_TIMEOUT K \<and>
         openct_error K (IFD_ERROR_USER_ABORT K) = SC_ERROR_KEYPAD_CANCELLED K \<and>
         (code < 0 \<and> code \<noteq> IFD_ERROR_USER_TIMEOUT K \<and> code \<noteq> IFD_ERROR_USER_ABORT K
            \<longrightarrow> openct_error K code = SC_ERROR_READER K)"
  using assms by (simp add: openct_error_def)

theorem openct_error_total_witness:
  "openct_error K0 7 = 7 \<and> openct_error K0 (- 12) = - 1108 \<and>
   openct_error K0 (- 13) = - 1109 \<and> openct_error K0 (- 5) = - 1100"
  using openct_error_total [of K0 7] openct_error_total [of K0 "- 5"]
  by (simp add: K0_def)

section \<open>Reconnecting\<close>

text \<open>
  Claim C1. With a handle present, \<open>openct_reader_reconnect\<close> returns 0 and leaves
  the memory, the list of calls included, as it was. Without a handle it runs
  \<open>openct_reader_connect\<close> (the calls begin with the request for a handle) and returns
  \<^verbatim>\<open>SC_ERROR_READER_REATTACHED\<close> when that did not fail and
  \<^verbatim>\<open>SC_ERROR_READER_DETACHED\<close> when it failed, nothing else; under the header
  convention, connect fails exactly when it does not return \<^verbatim>\<open>SC_NO_ERROR\<close>.
\<close>

theorem reconnect_result:
  "(h (data s) \<noteq> None \<longrightarrow> openct_reader_reconnect K E s = (0, s)) \<and>
   (h (data s) = None \<longrightarrow>
      (\<exists>tl. calls (snd (openct_reader_reconnect K E s)) = connect_trace s @ tl) \<and>
      snd (openct_reader_reconnect K E s) = snd (openct_reader_connect K E s) \<and>
      (\<not> fst (openct_reader_connect K E s) < 0 \<longrightarrow>
         fst (openct_reader_reconnect K E s) = SC_ERROR_READER_REATTACHED K) \<and>
      (fst (openct_reader_connect K E s) < 0 \<longrightarrow>
         fst (openct_reader_reconnect K E s) = SC_ERROR_READER_DETACHED K) \<and>
      (hdr_ok K \<longrightarrow>
         (fst (openct_reader_connect K E s) < 0) =
         (fst (openct_reader_connect K E s) \<noteq> SC_NO_ERROR K)))"
proof (intro conjI impI)
  assume "h (data s) \<noteq> None"
  then show "openct_reader_reconnect K E s = (0, s)" by (rule reconnect_connected)
next
  assume d: "h (data s) = None"
  show "\<exists>tl. calls (snd (openct_reader_reconnect K E s)) = connect_trace s @ tl"
    using connect_calls [of K E s] by (simp add: reconnect_disconnected [OF d])
  show "snd (openct_reader_reconnect K E s) = snd (openct_reader_connect K E s)"
    by (simp add: reconnect_disconnected [OF d])
  show "fst (openct_reader_reconnect K E s) = SC_ERROR_READER_REATTACHED K"
    if "\<not> fst (openct_reader_connect K E s) < 0"
    using that by (simp add: reconnect_disconnected [OF d])
  show "fst (openct_reader_reconnect K E s) = SC_ERROR_READER_DETACHED K"
    if "fst (openct_reader_connect K E s) < 0"
    using that by (simp add: reconnect_disconnected [OF d])
  show "(fst (openct_reader_connect K E s) < 0) =
        (fst (openct_reader_connect K E s) \<noteq> SC_NO_ERROR K)" if "hdr_ok K"
    using that connect_codes [of K E s] by (auto simp: hdr_ok_def)
qed

theorem reconnect_result_witness:
  "openct_reader_reconnect K0 E_card s_conn = (0, s_conn) \<and>
   fst (openct_reader_reconnect K0 E_card s_disc) = - 1115 \<and>
   fst (openct_reader_reconnect K0 E_none s_disc) = - 1114"
proof -
  have a: "h (data s_conn) \<noteq> None" and b: "h (data s_disc) = None"
    by (simp_all add: s_conn_def s_disc_def)
  have c: "fst (openct_reader_connect K0 E_card s_disc) = 0"
    by (simp add: openct_reader_connect_def E_card_def E_none_def s_disc_def K0_def
        disconnect_calls_def slot0_def Let_def)
  have e: "fst (openct_reader_connect K0 E_none s_disc) = - 1104"
    by (simp add: openct_reader_connect_def E_none_def s_disc_def K0_def
        disconnect_calls_def Let_def)
  show ?thesis
    using reconnect_result [of s_conn K0 E_card] reconnect_result [of s_disc K0 E_card]
      reconnect_result [of s_disc K0 E_none] a b c e
    by (simp add: K0_def)
qed

section \<open>Connecting\<close>

text \<open>
  Claim C7. \<open>openct_reader_connect\<close>: no transport handle gives
  \<^verbatim>\<open>SC_ERROR_CARD_NOT_PRESENT\<close>; with a handle, a negative result of the card request
  gives \<^verbatim>\<open>SC_ERROR_CARD_NOT_PRESENT\<close>, the result zero gives \<^verbatim>\<open>SC_ERROR_READER\<close>,
  and a positive byte count is stored as the ATR length of the slot, the handle is
  kept and the call returns \<^verbatim>\<open>SC_NO_ERROR\<close>.
\<close>

theorem connect_outcomes:
  "(ct_reader_connect E (connect_trace s) = None \<longrightarrow>
      fst (openct_reader_connect K E s) = SC_ERROR_CARD_NOT_PRESENT K) \<and>
   (ct_reader_connect E (connect_trace s) = Some c \<longrightarrow>
      (fst (ct_card_request E (request_trace K s c)) < 0 \<longrightarrow>
         fst (openct_reader_connect K E s) = SC_ERROR_CARD_NOT_PRESENT K) \<and>
      (fst (ct_card_request E (request_trace K s c)) = 0 \<longrightarrow>
         fst (openct_reader_connect K E s) = SC_ERROR_READER K) \<and>
      (0 < fst (ct_card_request E (request_trace K s c)) \<longrightarrow>
         fst (openct_reader_connect K E s) = SC_NO_ERROR K \<and>
         atr_len (slot (snd (openct_reader_connect K E s))) =
           nat (fst (ct_card_request E (request_trace K s c))) \<and>
         h (data (snd (openct_reader_connect K E s))) = Some c))"
  by (auto simp: openct_reader_connect_def connect_trace_def request_trace_def Let_def
      split: prod.splits)


theorem connect_outcomes_witness:
  "fst (openct_reader_connect K0 E_none s_conn) = - 1104 \<and>
   fst (openct_reader_connect K0 (E_card\<lparr>ct_card_request := (\<lambda>t. (- 1, []))\<rparr>) s_conn) = - 1104 \<and>
   fst (openct_reader_connect K0 (E_card\<lparr>ct_card_request := (\<lambda>t. (0, []))\<rparr>) s_conn) = - 1100 \<and>
   fst (openct_reader_connect K0 E_card s_conn) = 0 \<and>
   atr_len (slot (snd (openct_reader_connect K0 E_card s_conn))) = 2"
  using connect_outcomes [where K = K0 and E = E_none and s = s_conn]
    connect_outcomes [where K = K0 and s = s_conn and c = 7
      and E = "E_card\<lparr>ct_card_request := (\<lambda>t. (- 1, []))\<rparr>"]
    connect_outcomes [where K = K0 and s = s_conn and c = 7
      and E = "E_card\<lparr>ct_card_request := (\<lambda>t. (0, []))\<rparr>"]
    connect_outcomes [where K = K0 and E = E_card and s = s_conn and c = 7]
  by (simp add: E_none_def E_card_def K0_def)

section \<open>Transmitting on a reader that has gone\<close>

text \<open>
  Claim C5. Whenever \<open>openct_reader_transmit\<close> gets as far as the card transaction
  (the hotplug check did not return a negative code) and the transaction returns
  \<^verbatim>\<open>IFD_ERROR_NOT_CONNECTED\<close>, it disconnects, the stored handle becomes \<^verbatim>\<open>NULL\<close>
  and the call returns \<^verbatim>\<open>SC_ERROR_READER_DETACHED\<close>.
\<close>

theorem transmit_not_connected:
  assumes "openct_reader_reconnect K E s = (rc0, s1)" and "\<not> rc0 < 0"
    and "fst (ct_card_transact E (transact_trace s1 sendbuf sendsize recvsize)) =
           IFD_ERROR_NOT_CONNECTED K"
  shows "fst (openct_reader_transmit K E s sendbuf sendsize recvbuf recvsize control) =
           SC_ERROR_READER_DETACHED K \<and>
         h (data (fst (snd (openct_reader_transmit K E s sendbuf sendsize recvbuf recvsize
                              control)))) = None \<and>
         calls (fst (snd (openct_reader_transmit K E s sendbuf sendsize recvbuf recvsize
                              control))) =
           transact_trace s1 sendbuf sendsize recvsize @ [CtReaderDisconnect (h (data s1))]"
  using assms
  by (auto simp: openct_reader_transmit_def transact_trace_def Let_def split: prod.splits)

theorem transmit_not_connected_witness:
  "fst (openct_reader_transmit K0 E_gone s_conn [0, 0xA4] 2 [0, 0] 2 0) = - 1114 \<and>
   h (data (fst (snd (openct_reader_transmit K0 E_gone s_conn [0, 0xA4] 2 [0, 0] 2 0)))) = None"
proof -
  have a: "openct_reader_reconnect K0 E_gone s_conn = (0, s_conn)"
    by (simp add: openct_reader_reconnect_def s_conn_def)
  have b: "fst (ct_card_transact E_gone (transact_trace s_conn [0, 0xA4] 2 2)) =
             IFD_ERROR_NOT_CONNECTED K0"
    by (simp add: E_gone_def E_none_def K0_def)
  show ?thesis
    using transmit_not_connected [OF a _ b, where recvbuf = "[0, 0]" and control = 0]
    by (simp add: K0_def)
qed

section \<open>Unlocking\<close>

text \<open>
  Claim C9. When \<^verbatim>\<open>ct_card_unlock\<close>, called with the stored exclusive lock handle,
  answers \<^verbatim>\<open>IFD_ERROR_NOT_CONNECTED\<close>, \<open>openct_reader_unlock\<close> returns 0; the call it
  made is the only change to the memory.
\<close>

theorem unlock_not_connected:
  assumes "drv_data (slot s) = Some sd"
    and "ct_card_unlock E (unlock_trace s sd) = IFD_ERROR_NOT_CONNECTED K"
  shows "openct_reader_unlock K E s = Some (0, s\<lparr>calls := unlock_trace s sd\<rparr>)"
  using assms by (simp add: openct_reader_unlock_def unlock_trace_def Let_def)

theorem unlock_not_connected_witness:
  "openct_reader_unlock K0 E_gone s_disc =
     Some (0, s_disc\<lparr>calls := [CtCardUnlock None 0 0]\<rparr>)"
proof -
  have a: "drv_data (slot s_disc) = Some \<lparr>excl_lock = 0, shared_lock = 0\<rparr>"
    by (simp add: s_disc_def slot0_def)
  have b: "ct_card_unlock E_gone (unlock_trace s_disc \<lparr>excl_lock = 0, shared_lock = 0\<rparr>) =
             IFD_ERROR_NOT_CONNECTED K0"
    by (simp add: E_gone_def E_none_def K0_def)
  show ?thesis
    using unlock_not_connected [OF a b]
    by (simp add: unlock_trace_def s_disc_def slot0_def)
qed


section \<open>More facts about the hotplug check\<close>

lemma reconnect_verify_free:
  "filter is_verify (calls (snd (openct_reader_reconnect K E s))) = filter is_verify (calls s)"
  by (auto simp: openct_reader_reconnect_def openct_reader_connect_def disconnect_calls_def
      Let_def split: prod.splits option.splits)

lemma reconnect_negative:
  "hdr_ok K \<Longrightarrow> h (data s) = None \<Longrightarrow> fst (openct_reader_reconnect K E s) < 0"
  by (simp add: reconnect_disconnected hdr_ok_def)

lemma reconnect_calls:
  "h (data s) = None \<Longrightarrow>
   \<exists>tl. calls (snd (openct_reader_reconnect K E s)) = connect_trace s @ tl"
  using connect_calls [of K E s] by (simp add: reconnect_disconnected)

lemma openct_error_negative:
  "hdr_ok K \<Longrightarrow> rc < 0 \<Longrightarrow> openct_error K rc < 0"
  by (simp add: openct_error_def hdr_ok_def)

section \<open>Unlocking leaves the connection alone\<close>

text \<open>
  Claim C10. \<open>openct_reader_unlock\<close> changes nothing but the list of calls, to which
  it adds the one call of \<^verbatim>\<open>ct_card_unlock\<close>: the stored handle is the same after the
  call as before, there is no connect and no disconnect. By contrast
  \<open>openct_reader_lock\<close> and \<open>openct_reader_transmit\<close> run the hotplug check, which on
  a reader without a handle tries to connect, and both set the handle to \<^verbatim>\<open>NULL\<close>
  when their primitive answers \<^verbatim>\<open>IFD_ERROR_NOT_CONNECTED\<close>.
\<close>

theorem unlock_keeps_handle:
  "(drv_data (slot s) = Some sd \<longrightarrow>
      (\<exists>rc. openct_reader_unlock K E s = Some (rc, s\<lparr>calls := unlock_trace s sd\<rparr>))) \<and>
   (openct_reader_unlock K E s = Some (r, s1) \<longrightarrow> h (data s1) = h (data s)) \<and>
   (hdr_ok K \<and> h (data s) = None \<longrightarrow>
      openct_reader_lock K E s = Some (openct_reader_reconnect K E s) \<and>
      openct_reader_transmit K E s sendbuf sendsize recvbuf recvsize control =
        (fst (openct_reader_reconnect K E s), snd (openct_reader_reconnect K E s),
         recvbuf, recvsize) \<and>
      (\<exists>tl. calls (snd (openct_reader_reconnect K E s)) = connect_trace s @ tl)) \<and>
   (h (data s) \<noteq> None \<and> drv_data (slot s) = Some sd \<and>
    fst (ct_card_lock E (lock_trace K s)) = IFD_ERROR_NOT_CONNECTED K \<longrightarrow>
      (\<exists>s2. openct_reader_lock K E s = Some (SC_ERROR_READER_DETACHED K, s2) \<and>
            h (data s2) = None)) \<and>
   (h (data s) \<noteq> None \<and>
    fst (ct_card_transact E (transact_trace s sendbuf sendsize recvsize)) =
      IFD_ERROR_NOT_CONNECTED K \<longrightarrow>
      h (data (fst (snd (openct_reader_transmit K E s sendbuf sendsize recvbuf recvsize
                           control)))) = None)"
proof (intro conjI impI)
  show "\<exists>rc. openct_reader_unlock K E s = Some (rc, s\<lparr>calls := unlock_trace s sd\<rparr>)"
    if "drv_data (slot s) = Some sd"
    using that by (simp add: openct_reader_unlock_def unlock_trace_def Let_def)
  show "h (data s1) = h (data s)" if "openct_reader_unlock K E s = Some (r, s1)"
    using that
    by (auto simp: openct_reader_unlock_def Let_def split: option.splits if_splits)
next
  assume a: "hdr_ok K \<and> h (data s) = None"
  then have n: "fst (openct_reader_reconnect K E s) < 0"
    by (simp add: reconnect_negative)
  show "openct_reader_lock K E s = Some (openct_reader_reconnect K E s)"
    using n by (cases "openct_reader_reconnect K E s") (simp add: openct_reader_lock_def)
  show "openct_reader_transmit K E s sendbuf sendsize recvbuf recvsize control =
        (fst (openct_reader_reconnect K E s), snd (openct_reader_reconnect K E s),
         recvbuf, recvsize)"
    using n by (cases "openct_reader_reconnect K E s") (simp add: openct_reader_transmit_def)
  show "\<exists>tl. calls (snd (openct_reader_reconnect K E s)) = connect_trace s @ tl"
    using a by (simp add: reconnect_calls)
next
  assume a: "h (data s) \<noteq> None \<and> drv_data (slot s) = Some sd \<and>
    fst (ct_card_lock E (lock_trace K s)) = IFD_ERROR_NOT_CONNECTED K"
  then have "openct_reader_reconnect K E s = (0, s)"
    by (simp add: reconnect_connected)
  with a show "\<exists>s2. openct_reader_lock K E s = Some (SC_ERROR_READER_DETACHED K, s2) \<and>
            h (data s2) = None"
    by (auto simp: openct_reader_lock_def lock_trace_def Let_def split: prod.splits)
next
  assume a: "h (data s) \<noteq> None \<and>
    fst (ct_card_transact E (transact_trace s sendbuf sendsize recvsize)) =
      IFD_ERROR_NOT_CONNECTED K"
  then have "openct_reader_reconnect K E s = (0, s)"
    by (simp add: reconnect_connected)
  with a show "h (data (fst (snd (openct_reader_transmit K E s sendbuf sendsize recvbuf
                 recvsize control)))) = None"
    by (auto simp: openct_reader_transmit_def transact_trace_def Let_def split: prod.splits)
qed

theorem unlock_keeps_handle_witness:
  "(\<exists>rc. openct_reader_unlock K0 E_gone s_conn =
           Some (rc, s_conn\<lparr>calls := [CtCardUnlock (Some 7) 0 0]\<rparr>)) \<and>
   openct_reader_lock K0 E_gone s_disc = Some (openct_reader_reconnect K0 E_gone s_disc) \<and>
   (\<exists>tl. calls (snd (openct_reader_reconnect K0 E_gone s_disc)) = CtReaderConnect 0 # tl) \<and>
   (\<exists>s2. openct_reader_lock K0 E_gone s_conn = Some (- 1114, s2) \<and> h (data s2) = None) \<and>
   h (data (fst (snd (openct_reader_transmit K0 E_gone s_conn [0, 0xA4] 2 [0, 0] 2 0)))) = None"
proof -
  have k: "hdr_ok K0" by (rule K0_ok)
  have a: "drv_data (slot s_conn) = Some \<lparr>excl_lock = 0, shared_lock = 0\<rparr>"
    and b: "h (data s_conn) \<noteq> None" and c: "h (data s_disc) = None"
    by (simp_all add: s_conn_def s_disc_def slot0_def)
  have d: "fst (ct_card_lock E_gone (lock_trace K0 s_conn)) = IFD_ERROR_NOT_CONNECTED K0"
    and e: "fst (ct_card_transact E_gone (transact_trace s_conn [0, 0xA4] 2 2)) =
              IFD_ERROR_NOT_CONNECTED K0"
    by (simp_all add: E_gone_def E_none_def K0_def)
  show ?thesis
    using unlock_keeps_handle [where K = K0 and E = E_gone and s = s_conn
        and sd = "\<lparr>excl_lock = 0, shared_lock = 0\<rparr>" and sendbuf = "[0, 0xA4]"
        and sendsize = 2 and recvbuf = "[0, 0]" and recvsize = 2 and control = 0]
      unlock_keeps_handle [where K = K0 and E = E_gone and s = s_disc]
      k a b c d e
    by (simp add: unlock_trace_def connect_trace_def disconnect_calls_def s_conn_def
        s_disc_def slot0_def K0_def)
qed

section \<open>Facts about the command frame\<close>

lemma verify_frame_too_big:
  "254 < 4 + 1 + lc a \<Longrightarrow> 4 + 1 + lc a \<le> SIZE_MAX K \<Longrightarrow>
   verify_frame K a = Some (Inl (SC_ERROR_BUFFER_TOO_SMALL K))"
  by (auto simp: verify_frame_def Let_def)

lemma verify_frame_fits:
  "lc a = 0 \<or> 4 + 1 + lc a \<le> 254 \<and> lc a \<le> length (apdu_data a) \<Longrightarrow>
   \<exists>buf. verify_frame K a = Some (Inr buf)"
proof -
  assume a: "lc a = 0 \<or> 4 + 1 + lc a \<le> 254 \<and> lc a \<le> length (apdu_data a)"
  show ?thesis
  proof (cases "lc a = 0")
    case True
    then show ?thesis by (simp add: verify_frame_def)
  next
    case False
    with a have b: "4 + 1 + lc a \<le> 254" and c: "lc a \<le> length (apdu_data a)"
      by simp_all
    have "(4 + 1 + lc a) mod (SIZE_MAX K + 1) \<le> 4 + 1 + lc a"
      by (rule mod_less_eq_dividend)
    with b have "\<not> 254 < (4 + 1 + lc a) mod (SIZE_MAX K + 1)" by linarith
    with False b c show ?thesis by (simp add: verify_frame_def Let_def)
  qed
qed

lemma verify_frame_codes:
  "verify_frame K a = Some (Inl rc) \<Longrightarrow> rc = SC_ERROR_BUFFER_TOO_SMALL K"
  by (auto simp: verify_frame_def Let_def split: if_splits)

section \<open>Transmitting: the receive buffer and its capacity\<close>

text \<open>
  Claim C2, as the code has it. \<open>openct_reader_transmit\<close> writes nothing to the
  caller's buffer itself. When the hotplug check returns a negative code, buffer and
  \<^verbatim>\<open>*recvsize\<close> are untouched. Otherwise the buffer and the capacity \<^verbatim>\<open>*recvsize\<close> are
  handed to \<^verbatim>\<open>ct_card_transact\<close> and the buffer afterwards holds exactly what the
  transport wrote. A result of the transport that is not negative is stored in
  \<^verbatim>\<open>*recvsize\<close> and returned as it is, without a comparison with the capacity; a
  negative result leaves \<^verbatim>\<open>*recvsize\<close> alone and gives a negative code. So for a
  transport that keeps to its contract (it writes at most the capacity and, on
  success, returns the number of bytes it wrote) a successful call reports the exact
  number of bytes written, and that number is at most the capacity.
\<close>

theorem transmit_capacity:
  assumes "hdr_ok K"
    and "openct_reader_reconnect K E s = (rc0, s1)"
    and "ct_card_transact E (transact_trace s1 sendbuf sendsize recvsize) = (rc, out)"
    and "openct_reader_transmit K E s sendbuf sendsize recvbuf recvsize control =
           (r, s2, recvbuf2, recvsize2)"
  shows "(rc0 < 0 \<longrightarrow>
            r = rc0 \<and> calls s2 = calls s1 \<and> recvbuf2 = recvbuf \<and> recvsize2 = recvsize) \<and>
         (\<not> rc0 < 0 \<longrightarrow>
            (\<exists>tl. calls s2 = transact_trace s1 sendbuf sendsize recvsize @ tl) \<and>
            recvbuf2 = written out recvbuf \<and>
            (0 \<le> rc \<longrightarrow> r = rc \<and> recvsize2 = nat rc) \<and>
            (rc < 0 \<longrightarrow> r < 0 \<and> recvsize2 = recvsize) \<and>
            (length out \<le> recvsize \<and> (0 \<le> rc \<longrightarrow> rc = int (length out)) \<and> 0 \<le> r \<longrightarrow>
               r = int (length out) \<and> recvsize2 = length out \<and> recvsize2 \<le> recvsize))"
proof -
  have nc: "IFD_ERROR_NOT_CONNECTED K < 0" and dt: "SC_ERROR_READER_DETACHED K < 0"
    using assms(1) by (simp_all add: hdr_ok_def)
  have early: "r = rc0 \<and> calls s2 = calls s1 \<and> recvbuf2 = recvbuf \<and> recvsize2 = recvsize"
    if "rc0 < 0"
    using assms(2,4) that by (simp add: openct_reader_transmit_def)
  have res1: "r = SC_ERROR_READER_DETACHED K \<and>
      calls s2 = transact_trace s1 sendbuf sendsize recvsize @
                   [CtReaderDisconnect (h (data s1))] \<and>
      recvbuf2 = written out recvbuf \<and> recvsize2 = recvsize"
    if "\<not> rc0 < 0" and "rc = IFD_ERROR_NOT_CONNECTED K"
    using assms(2,3,4) that
    by (auto simp: openct_reader_transmit_def transact_trace_def Let_def)
  have res2: "r = openct_error K rc \<and>
      calls s2 = transact_trace s1 sendbuf sendsize recvsize \<and>
      recvbuf2 = written out recvbuf \<and>
      recvsize2 = (if 0 \<le> rc then nat rc else recvsize)"
    if "\<not> rc0 < 0" and "rc \<noteq> IFD_ERROR_NOT_CONNECTED K"
    using assms(2,3,4) that
    by (auto simp: openct_reader_transmit_def transact_trace_def Let_def)
  have tr: "\<exists>tl. calls s2 = transact_trace s1 sendbuf sendsize recvsize @ tl"
    and w: "recvbuf2 = written out recvbuf" if "\<not> rc0 < 0"
    using res1 res2 that by (cases "rc = IFD_ERROR_NOT_CONNECTED K"; simp)+
  have ok: "r = rc \<and> recvsize2 = nat rc" if "\<not> rc0 < 0" and "0 \<le> rc"
    using res2 that nc by (simp add: openct_error_def)
  have neg: "r < 0 \<and> recvsize2 = recvsize" if "\<not> rc0 < 0" and "rc < 0"
    using res1 res2 that dt openct_error_negative [OF assms(1) that(2)]
    by (cases "rc = IFD_ERROR_NOT_CONNECTED K") simp_all
  have honest: "r = int (length out) \<and> recvsize2 = length out \<and> recvsize2 \<le> recvsize"
    if "\<not> rc0 < 0"
      and "length out \<le> recvsize \<and> (0 \<le> rc \<longrightarrow> rc = int (length out)) \<and> 0 \<le> r"
    using that ok neg by (cases "0 \<le> rc") simp_all
  show ?thesis
    using early tr w ok neg honest by blast
qed

theorem transmit_capacity_witness:
  "fst (openct_reader_transmit K0 E_ok s_conn [0x00, 0xA4, 0x04, 0x00, 0x02, 0x3F, 0x00] 7
     [0, 0, 0, 0] 4 0) = 2 \<and>
   fst (snd (snd (openct_reader_transmit K0 E_ok s_conn
     [0x00, 0xA4, 0x04, 0x00, 0x02, 0x3F, 0x00] 7 [0, 0, 0, 0] 4 0))) = [0x90, 0x00, 0, 0] \<and>
   snd (snd (snd (openct_reader_transmit K0 E_ok s_conn
     [0x00, 0xA4, 0x04, 0x00, 0x02, 0x3F, 0x00] 7 [0, 0, 0, 0] 4 0))) = 2"
proof -
  let ?R = "openct_reader_transmit K0 E_ok s_conn [0x00, 0xA4, 0x04, 0x00, 0x02, 0x3F, 0x00] 7
     [0, 0, 0, 0] 4 0"
  have a: "openct_reader_reconnect K0 E_ok s_conn = (0, s_conn)"
    by (simp add: openct_reader_reconnect_def s_conn_def)
  have b: "ct_card_transact E_ok
      (transact_trace s_conn [0x00, 0xA4, 0x04, 0x00, 0x02, 0x3F, 0x00] 7 4) =
      (2, [0x90, 0x00])"
    by (simp add: E_ok_def E_card_def E_none_def)
  have c: "?R = (fst ?R, fst (snd ?R), fst (snd (snd ?R)), snd (snd (snd ?R)))"
    by simp
  have p: "\<not> (0::int) < 0" and q: "(0::int) \<le> 2" by simp_all
  note t = transmit_capacity [OF K0_ok a b c, THEN conjunct2, THEN mp, OF p]
  note w = t [THEN conjunct2, THEN conjunct1]
  note ok = t [THEN conjunct2, THEN conjunct2, THEN conjunct1, THEN mp, OF q]
  from ok have "fst ?R = 2" and "snd (snd (snd ?R)) = 2" by simp_all
  moreover from w have "fst (snd (snd ?R)) = [0x90, 0x00, 0, 0]"
    by (simp add: written_def)
  ultimately show ?thesis by simp
qed

text \<open>
  The claim as stated asks for a failure when the transport reports more bytes than
  the capacity. With a capacity of 2 and a transport that writes two bytes and reports
  5, the call returns 5 and sets \<^verbatim>\<open>*recvsize\<close> to 5.
\<close>

theorem transmit_capacity_counterexample:
  "ct_card_transact E_liar [CtCardTransact (Some 7) 0 [0, 0xA4] 2 2] = (5, [0x90, 0x00]) \<and>
   openct_reader_transmit K0 E_liar s_conn [0, 0xA4] 2 [0, 0] 2 0 =
     (5, s_conn\<lparr>calls := [CtCardTransact (Some 7) 0 [0, 0xA4] 2 2]\<rparr>, [0x90, 0x00], 5)"
  by (simp add: openct_reader_transmit_def openct_reader_reconnect_def openct_error_def
      E_liar_def E_card_def E_none_def K0_def s_conn_def slot0_def written_def Let_def)

section \<open>PIN verification: the bound on the frame\<close>

text \<open>
  Claim C3, as the code has it. Let the template have a data field of \<open>d\<close> bytes with
  \<open>4 + 1 + d > 254\<close>, the sum not wrapping in \<^verbatim>\<open>size_t\<close>. On a reader with a handle
  \<open>openct_reader_perform_verify\<close> returns \<^verbatim>\<open>SC_ERROR_BUFFER_TOO_SMALL\<close> and the
  memory, the list of calls included, is unchanged: no transport call is made. On a
  reader without a handle the hotplug check comes first: it calls the transport to
  connect, and the call returns its code, \<^verbatim>\<open>SC_ERROR_READER_DETACHED\<close> or
  \<^verbatim>\<open>SC_ERROR_READER_REATTACHED\<close>.
\<close>

theorem verify_too_big:
  assumes "apdu cmd = Some a" and "254 < 4 + 1 + lc a" and "4 + 1 + lc a \<le> SIZE_MAX K"
  shows "(h (data s) \<noteq> None \<longrightarrow>
            openct_reader_perform_verify K E s cmd =
              Some (SC_ERROR_BUFFER_TOO_SMALL K, s, cmd)) \<and>
         (h (data s) = None \<and> hdr_ok K \<longrightarrow>
            openct_reader_perform_verify K E s cmd =
              Some (fst (openct_reader_reconnect K E s),
                    snd (openct_reader_reconnect K E s), cmd) \<and>
            fst (openct_reader_reconnect K E s) \<in>
              {SC_ERROR_READER_DETACHED K, SC_ERROR_READER_REATTACHED K} \<and>
            (\<exists>tl. calls (snd (openct_reader_reconnect K E s)) = connect_trace s @ tl))"
proof (intro conjI impI)
  assume "h (data s) \<noteq> None"
  with assms show "openct_reader_perform_verify K E s cmd =
      Some (SC_ERROR_BUFFER_TOO_SMALL K, s, cmd)"
    by (simp add: openct_reader_perform_verify_def reconnect_connected verify_frame_too_big)
next
  assume d: "h (data s) = None \<and> hdr_ok K"
  then have "fst (openct_reader_reconnect K E s) < 0"
    by (simp add: reconnect_negative)
  then show "openct_reader_perform_verify K E s cmd =
      Some (fst (openct_reader_reconnect K E s), snd (openct_reader_reconnect K E s), cmd)"
    by (cases "openct_reader_reconnect K E s")
      (simp add: openct_reader_perform_verify_def)
  show "fst (openct_reader_reconnect K E s) \<in>
      {SC_ERROR_READER_DETACHED K, SC_ERROR_READER_REATTACHED K}"
    using d by (simp add: reconnect_disconnected)
  show "\<exists>tl. calls (snd (openct_reader_reconnect K E s)) = connect_trace s @ tl"
    using d by (simp add: reconnect_calls)
qed

theorem verify_too_big_witness:
  "openct_reader_perform_verify K0 E_card s_conn (cmd_of 250 0) =
     Some (- 1303, s_conn, cmd_of 250 0) \<and>
   openct_reader_perform_verify K0 E_card s_disc (cmd_of 250 0) =
     Some (fst (openct_reader_reconnect K0 E_card s_disc),
           snd (openct_reader_reconnect K0 E_card s_disc), cmd_of 250 0)"
proof -
  have a: "h (data s_conn) \<noteq> None" and a': "h (data s_disc) = None"
    by (simp_all add: s_conn_def s_disc_def)
  have b: "apdu (cmd_of 250 0) = Some (apdu_of 250)" by (simp add: cmd_of_def)
  have c: "254 < 4 + 1 + lc (apdu_of 250)" "4 + 1 + lc (apdu_of 250) \<le> SIZE_MAX K0"
    by (simp_all add: apdu_of_def K0_def)
  have d: "SC_ERROR_BUFFER_TOO_SMALL K0 = - 1303" by (simp add: K0_def)
  show ?thesis
    using verify_too_big [OF b c, of s_conn E_card] verify_too_big [OF b c, of s_disc E_card]
      a a' K0_ok d
    by simp
qed

text \<open>
  The claim as stated covers every call. On a reader without a handle, with a data
  field of 250 bytes, the call asks the transport for a handle and returns
  \<^verbatim>\<open>SC_ERROR_READER_DETACHED\<close>.
\<close>

theorem verify_too_big_counterexample:
  "apdu (cmd_of 250 0) = Some (apdu_of 250) \<and> 254 < 4 + 1 + lc (apdu_of 250) \<and>
   openct_reader_perform_verify K0 E_none s_disc (cmd_of 250 0) =
     Some (SC_ERROR_READER_DETACHED K0, s_disc\<lparr>calls := [CtReaderConnect 0]\<rparr>, cmd_of 250 0) \<and>
   SC_ERROR_READER_DETACHED K0 \<noteq> SC_ERROR_BUFFER_TOO_SMALL K0"
  by (simp add: openct_reader_perform_verify_def openct_reader_reconnect_def
      openct_reader_connect_def disconnect_calls_def E_none_def K0_def s_disc_def
      cmd_of_def apdu_of_def Let_def)

section \<open>PIN verification: the encoding of the PIN\<close>

text \<open>
  Claim C4, as the code has it. Let the PIN encoding be neither ASCII nor BCD. Then
  \<^verbatim>\<open>ct_card_verify\<close> is never called: where the call returns, the memory is the one
  the hotplug check left, whose calls hold no verify call that was not there before.
  On a reader with a handle whose frame can be built (the template is absent, or its
  data field is empty, or \<open>4 + 1 + d \<le> 254\<close> and the \<open>d\<close> bytes are there) the call
  returns \<^verbatim>\<open>SC_ERROR_INVALID_ARGUMENTS\<close> and makes no transport call at all. On a
  reader with a handle and a data field with \<open>4 + 1 + d > 254\<close>, the sum not wrapping in
  \<^verbatim>\<open>size_t\<close>, the bound check comes first: the call returns
  \<^verbatim>\<open>SC_ERROR_BUFFER_TOO_SMALL\<close>, again without a transport call. On a reader without
  a handle the hotplug check comes first: it calls the transport to connect and the
  call returns its code, \<^verbatim>\<open>SC_ERROR_READER_DETACHED\<close> or
  \<^verbatim>\<open>SC_ERROR_READER_REATTACHED\<close>.
\<close>

theorem verify_bad_encoding:
  assumes "encoding (pin1 cmd) \<noteq> SC_PIN_ENCODING_ASCII K"
    and "encoding (pin1 cmd) \<noteq> SC_PIN_ENCODING_BCD K"
  shows "(openct_reader_perform_verify K E s cmd = None \<or>
          (\<exists>r. openct_reader_perform_verify K E s cmd =
                  Some (r, snd (openct_reader_reconnect K E s), cmd) \<and>
               r \<in> {fst (openct_reader_reconnect K E s), SC_ERROR_INVALID_ARGUMENTS K,
                     SC_ERROR_BUFFER_TOO_SMALL K})) \<and>
         filter is_verify (calls (snd (openct_reader_reconnect K E s))) =
           filter is_verify (calls s) \<and>
         (h (data s) \<noteq> None \<and>
          (apdu cmd = None \<or>
           (\<exists>a. apdu cmd = Some a \<and>
                (lc a = 0 \<or> 4 + 1 + lc a \<le> 254 \<and> lc a \<le> length (apdu_data a)))) \<longrightarrow>
            openct_reader_perform_verify K E s cmd =
              Some (SC_ERROR_INVALID_ARGUMENTS K, s, cmd)) \<and>
         (h (data s) \<noteq> None \<and>
          (\<exists>a. apdu cmd = Some a \<and> 254 < 4 + 1 + lc a \<and> 4 + 1 + lc a \<le> SIZE_MAX K) \<longrightarrow>
            openct_reader_perform_verify K E s cmd =
              Some (SC_ERROR_BUFFER_TOO_SMALL K, s, cmd)) \<and>
         (h (data s) = None \<and> hdr_ok K \<longrightarrow>
            openct_reader_perform_verify K E s cmd =
              Some (fst (openct_reader_reconnect K E s),
                    snd (openct_reader_reconnect K E s), cmd) \<and>
            fst (openct_reader_reconnect K E s) \<in>
              {SC_ERROR_READER_DETACHED K, SC_ERROR_READER_REATTACHED K} \<and>
            (\<exists>tl. calls (snd (openct_reader_reconnect K E s)) = connect_trace s @ tl))"
proof -
  have e: "verify_pin_encoding K (encoding (pin1 cmd)) = None"
    using assms by (simp add: verify_pin_encoding_def)
  obtain rc0 s1 where rec: "openct_reader_reconnect K E s = (rc0, s1)"
    by (cases "openct_reader_reconnect K E s") auto
  have never: "openct_reader_perform_verify K E s cmd = None \<or>
          (\<exists>r. openct_reader_perform_verify K E s cmd =
                  Some (r, snd (openct_reader_reconnect K E s), cmd) \<and>
               r \<in> {fst (openct_reader_reconnect K E s), SC_ERROR_INVALID_ARGUMENTS K,
                     SC_ERROR_BUFFER_TOO_SMALL K})"
    using e verify_frame_codes [of K]
    by (auto simp: openct_reader_perform_verify_def rec Let_def
        split: option.splits sum.splits)
  have free: "filter is_verify (calls (snd (openct_reader_reconnect K E s))) =
           filter is_verify (calls s)"
    by (rule reconnect_verify_free)
  have inval: "openct_reader_perform_verify K E s cmd =
              Some (SC_ERROR_INVALID_ARGUMENTS K, s, cmd)"
    if c: "h (data s) \<noteq> None \<and>
          (apdu cmd = None \<or>
           (\<exists>a. apdu cmd = Some a \<and>
                (lc a = 0 \<or> 4 + 1 + lc a \<le> 254 \<and> lc a \<le> length (apdu_data a))))"
  proof -
    from c have r: "openct_reader_reconnect K E s = (0, s)"
      by (simp add: reconnect_connected)
    show ?thesis
    proof (cases "apdu cmd")
      case None
      then show ?thesis by (simp add: openct_reader_perform_verify_def r)
    next
      case (Some a)
      with c have "lc a = 0 \<or> 4 + 1 + lc a \<le> 254 \<and> lc a \<le> length (apdu_data a)"
        by simp
      from verify_frame_fits [OF this, of K] obtain buf
        where "verify_frame K a = Some (Inr buf)" by blast
      with Some e show ?thesis
        by (simp add: openct_reader_perform_verify_def r)
    qed
  qed
  have big: "openct_reader_perform_verify K E s cmd =
              Some (SC_ERROR_BUFFER_TOO_SMALL K, s, cmd)"
    if c: "h (data s) \<noteq> None \<and>
          (\<exists>a. apdu cmd = Some a \<and> 254 < 4 + 1 + lc a \<and> 4 + 1 + lc a \<le> SIZE_MAX K)"
  proof -
    from c have r: "openct_reader_reconnect K E s = (0, s)"
      by (simp add: reconnect_connected)
    from c obtain a where a: "apdu cmd = Some a" "254 < 4 + 1 + lc a"
      "4 + 1 + lc a \<le> SIZE_MAX K" by blast
    from verify_frame_too_big [OF a(2,3)] a(1) show ?thesis
      by (simp add: openct_reader_perform_verify_def r)
  qed
  have hot: "openct_reader_perform_verify K E s cmd =
              Some (fst (openct_reader_reconnect K E s),
                    snd (openct_reader_reconnect K E s), cmd) \<and>
            fst (openct_reader_reconnect K E s) \<in>
              {SC_ERROR_READER_DETACHED K, SC_ERROR_READER_REATTACHED K} \<and>
            (\<exists>tl. calls (snd (openct_reader_reconnect K E s)) = connect_trace s @ tl)"
    if d: "h (data s) = None \<and> hdr_ok K"
  proof -
    from d have "rc0 < 0"
      using reconnect_negative [of K s E] by (simp add: rec)
    then have "openct_reader_perform_verify K E s cmd = Some (rc0, s1, cmd)"
      by (simp add: openct_reader_perform_verify_def rec)
    moreover have "fst (openct_reader_reconnect K E s) \<in>
        {SC_ERROR_READER_DETACHED K, SC_ERROR_READER_REATTACHED K}"
      using d by (simp add: reconnect_disconnected)
    moreover have "\<exists>tl. calls (snd (openct_reader_reconnect K E s)) = connect_trace s @ tl"
      using d by (simp add: reconnect_calls)
    ultimately show ?thesis by (simp add: rec)
  qed
  show ?thesis
    using never free inval big hot by blast
qed

theorem verify_bad_encoding_witness:
  "openct_reader_perform_verify K0 E_card s_conn (cmd_of 8 99) =
     Some (- 1300, s_conn, cmd_of 8 99) \<and>
   openct_reader_perform_verify K0 E_card s_conn (cmd_of 250 99) =
     Some (- 1303, s_conn, cmd_of 250 99) \<and>
   openct_reader_perform_verify K0 E_card s_disc (cmd_of 8 99) =
     Some (fst (openct_reader_reconnect K0 E_card s_disc),
           snd (openct_reader_reconnect K0 E_card s_disc), cmd_of 8 99)"
proof -
  have a: "encoding (pin1 (cmd_of d 99)) \<noteq> SC_PIN_ENCODING_ASCII K0"
    "encoding (pin1 (cmd_of d 99)) \<noteq> SC_PIN_ENCODING_BCD K0" for d
    by (simp_all add: cmd_of_def K0_def)
  have b: "h (data s_conn) \<noteq> None" and b': "h (data s_disc) = None"
    by (simp_all add: s_conn_def s_disc_def)
  have c: "apdu (cmd_of 8 99) = Some (apdu_of 8)" "apdu (cmd_of 250 99) = Some (apdu_of 250)"
    by (simp_all add: cmd_of_def)
  have d: "4 + 1 + lc (apdu_of 8) \<le> 254 \<and> lc (apdu_of 8) \<le> length (apdu_data (apdu_of 8))"
    by (simp add: apdu_of_def)
  have e: "254 < 4 + 1 + lc (apdu_of 250) \<and> 4 + 1 + lc (apdu_of 250) \<le> SIZE_MAX K0"
    by (simp add: apdu_of_def K0_def)
  have k: "SC_ERROR_INVALID_ARGUMENTS K0 = - 1300" "SC_ERROR_BUFFER_TOO_SMALL K0 = - 1303"
    by (simp_all add: K0_def)
  note t1 = verify_bad_encoding [OF a [of 8], where E = E_card and s = s_conn,
      THEN conjunct2, THEN conjunct2, THEN conjunct1, THEN mp]
  note t2 = verify_bad_encoding [OF a [of 250], where E = E_card and s = s_conn,
      THEN conjunct2, THEN conjunct2, THEN conjunct2, THEN conjunct1, THEN mp]
  note t3 = verify_bad_encoding [OF a [of 8], where E = E_card and s = s_disc,
      THEN conjunct2, THEN conjunct2, THEN conjunct2, THEN conjunct2, THEN mp,
      THEN conjunct1]
  have "openct_reader_perform_verify K0 E_card s_conn (cmd_of 8 99) =
     Some (- 1300, s_conn, cmd_of 8 99)"
    using t1 b c(1) d by (simp add: k)
  moreover have "openct_reader_perform_verify K0 E_card s_conn (cmd_of 250 99) =
     Some (- 1303, s_conn, cmd_of 250 99)"
    using t2 b c(2) e by (simp add: k)
  moreover have "openct_reader_perform_verify K0 E_card s_disc (cmd_of 8 99) =
     Some (fst (openct_reader_reconnect K0 E_card s_disc),
           snd (openct_reader_reconnect K0 E_card s_disc), cmd_of 8 99)"
    using t3 b' K0_ok by simp
  ultimately show ?thesis by simp
qed

text \<open>
  The claim as stated promises \<^verbatim>\<open>SC_ERROR_INVALID_ARGUMENTS\<close> for every call with an
  unsupported encoding. With the encoding 99, a reader with a handle and a data field of
  250 bytes gives \<^verbatim>\<open>SC_ERROR_BUFFER_TOO_SMALL\<close>, and a reader without a handle gives
  \<^verbatim>\<open>SC_ERROR_READER_DETACHED\<close> after a call to the transport.
\<close>

theorem verify_bad_encoding_counterexample:
  "encoding (pin1 (cmd_of 250 99)) \<noteq> SC_PIN_ENCODING_ASCII K0 \<and>
   encoding (pin1 (cmd_of 250 99)) \<noteq> SC_PIN_ENCODING_BCD K0 \<and>
   openct_reader_perform_verify K0 E_none s_conn (cmd_of 250 99) =
     Some (SC_ERROR_BUFFER_TOO_SMALL K0, s_conn, cmd_of 250 99) \<and>
   openct_reader_perform_verify K0 E_none s_disc (cmd_of 8 99) =
     Some (SC_ERROR_READER_DETACHED K0, s_disc\<lparr>calls := [CtReaderConnect 0]\<rparr>, cmd_of 8 99) \<and>
   SC_ERROR_BUFFER_TOO_SMALL K0 \<noteq> SC_ERROR_INVALID_ARGUMENTS K0 \<and>
   SC_ERROR_READER_DETACHED K0 \<noteq> SC_ERROR_INVALID_ARGUMENTS K0"
  by (simp add: openct_reader_perform_verify_def openct_reader_reconnect_def
      openct_reader_connect_def disconnect_calls_def verify_frame_def E_none_def K0_def
      s_disc_def s_conn_def cmd_of_def apdu_of_def Let_def)

section \<open>Facts about the initialisation loop\<close>

lemma info_queries_append:
  "info_queries (t @ u) = info_queries t @ info_queries u"
  by (induction t rule: info_queries.induct) simp_all

lemma init_slots_queries:
  "info_queries (fst (init_slots K E ci t is)) = info_queries t"
proof (induction "is" arbitrary: t)
  case Nil
  show ?case by simp
next
  case (Cons i "is")
  obtain t2 sls where r: "init_slots K E ci (t @ [Calloc]) is = (t2, sls)"
    by (cases "init_slots K E ci (t @ [Calloc]) is") auto
  from Cons [of "t @ [Calloc]"] r have "info_queries t2 = info_queries t"
    by (simp add: info_queries_append)
  with r show ?case by (simp add: Let_def)
qed

lemma init_slots_length:
  "length (snd (init_slots K E ci t is)) = length is"
proof (induction "is" arbitrary: t)
  case Nil
  show ?case by simp
next
  case (Cons i "is")
  obtain t2 sls where r: "init_slots K E ci (t @ [Calloc]) is = (t2, sls)"
    by (cases "init_slots K E ci (t @ [Calloc]) is") auto
  from Cons [of "t @ [Calloc]"] r have "length sls = length is" by simp
  with r show ?case by (simp add: Let_def)
qed

lemma add_reader_queries:
  "info_queries (calls (snd (openct_add_reader K E ctx n ci))) = info_queries (calls ctx)"
proof -
  have "init_slots K E x t is = (t5, sls) \<Longrightarrow> info_queries t5 = info_queries t"
    for x t "is" t5 sls
    using init_slots_queries [of K E x t "is"] by simp
  then show ?thesis
    by (auto simp: openct_add_reader_def sc_add_reader_def Let_def info_queries_append
        split: prod.splits)
qed

lemma add_reader_readers:
  "\<exists>ys. reader (snd (openct_add_reader K E ctx n ci)) = reader ctx @ ys \<and> length ys \<le> 1"
  by (auto simp: openct_add_reader_def sc_add_reader_def Let_def split: prod.splits)

lemma add_reader_oom:
  "\<not> allocs_ok E q \<Longrightarrow>
   fst (openct_add_reader K E q n ci) = SC_ERROR_OUT_OF_MEMORY K \<and>
   reader (snd (openct_add_reader K E q n ci)) = reader q"
  by (auto simp: openct_add_reader_def allocs_ok_def Let_def)

lemma add_reader_ok:
  assumes "allocs_ok E q" and "0 \<le> sc_add_reader_rc E (register_trace q ci)"
  shows "fst (openct_add_reader K E q n ci) = 0 \<and>
         (\<exists>r. reader (snd (openct_add_reader K E q n ci)) = reader q @ [r] \<and>
              reader_drv_data r = \<lparr>h = None, num = n, info = data_info ci\<rparr> \<and>
              slot_count r = uint_to_int K (ct_slots (data_info ci)) \<and>
              length (reader_slot r) = SC_MAX_SLOTS K)"
proof -
  obtain t5 sls where sl: "init_slots K E (data_info ci) (register_trace q ci)
      [0..<SC_MAX_SLOTS K] = (t5, sls)"
    by (cases "init_slots K E (data_info ci) (register_trace q ci) [0..<SC_MAX_SLOTS K]")
      auto
  from init_slots_length [of K E "data_info ci" "register_trace q ci" "[0..<SC_MAX_SLOTS K]"]
  have "length sls = SC_MAX_SLOTS K" by (simp add: sl)
  with assms sl show ?thesis
    by (simp add: openct_add_reader_def sc_add_reader_def allocs_ok_def register_trace_def
        Let_def)
qed

lemma init_step_round:
  "init_step K E c i =
    (if round_wanted E (c\<lparr>calls := calls c @ [CtReaderInfo i]\<rparr>) i
     then snd (openct_add_reader K E (c\<lparr>calls := calls c @ [CtReaderInfo i]\<rparr>) i
                 (round_arg E (c\<lparr>calls := calls c @ [CtReaderInfo i]\<rparr>)))
     else c\<lparr>calls := calls c @ [CtReaderInfo i]\<rparr>)"
  by (simp add: init_step_def round_wanted_def round_arg_def Let_def split: prod.splits)

lemma init_step_queries:
  "info_queries (calls (init_step K E ctx i)) = info_queries (calls ctx) @ [i]"
  by (simp add: init_step_def Let_def add_reader_queries info_queries_append
      split: prod.splits)

lemma init_step_readers:
  "\<exists>ys. reader (init_step K E ctx i) = reader ctx @ ys \<and> length ys \<le> 1"
proof -
  let ?c = "ctx\<lparr>calls := calls ctx @ [CtReaderInfo i]\<rparr>"
  have "reader ?c = reader ctx" by simp
  then show ?thesis
    using add_reader_readers [of K E ?c i "round_arg E ?c"]
    by (simp add: init_step_round)
qed

lemma init_loop_queries:
  "info_queries (calls (init_loop K E ctx is)) = info_queries (calls ctx) @ is"
  by (induction "is" arbitrary: ctx) (simp_all add: init_step_queries)

lemma init_loop_readers:
  "\<exists>ys. reader (init_loop K E ctx is) = reader ctx @ ys"
proof (induction "is" arbitrary: ctx)
  case Nil
  show ?case by simp
next
  case (Cons i "is")
  from init_step_readers [of K E ctx i] obtain ys
    where a: "reader (init_step K E ctx i) = reader ctx @ ys" by blast
  from Cons [of "init_step K E ctx i"] obtain zs
    where "reader (init_loop K E (init_step K E ctx i) is) = reader (init_step K E ctx i) @ zs"
    by blast
  with a show ?case by simp
qed

lemma init_loop_append:
  "init_loop K E ctx (xs @ ys) = init_loop K E (init_loop K E ctx xs) ys"
  by (induction xs arbitrary: ctx) simp_all

lemma round_start_Suc:
  "round_start K E ctx (Suc i) = init_step K E (round_start K E ctx i) i"
  by (simp add: round_start_def init_loop_append)

lemma init_loop_split:
  assumes "i < n"
  shows "init_loop K E ctx [0..<n] = init_loop K E (round_start K E ctx (Suc i)) [Suc i..<n]"
proof -
  have "[0..<n] = [0..<Suc i] @ [Suc i..<n]"
    using assms upt_add_eq_append [of 0 "Suc i" "n - Suc i"] by simp
  then show ?thesis by (simp only: init_loop_append round_start_def)
qed

section \<open>Initialisation and allocation failures\<close>

text \<open>
  Claim C6, as the code has it. \<open>openct_reader_init\<close> returns \<^verbatim>\<open>SC_NO_ERROR\<close> whatever
  happens, and asks \<^verbatim>\<open>ct_reader_info\<close> about every index from 0 up to
  \<^verbatim>\<open>OPENCT_MAX_READERS\<close>, in order. Round \<open>i\<close> of its loop starts in the context the
  earlier rounds left; it calls \<open>openct_add_reader\<close> when there is metadata or
  \<open>i\<close> is below \<^verbatim>\<open>PREALLOCATE\<close>, and goes on in the context that call leaves. When
  one of the two allocations fails in that call, \<open>openct_add_reader\<close> returns
  \<^verbatim>\<open>SC_ERROR_OUT_OF_MEMORY\<close>, which the loop does not look at, and the readers are
  those from before the round: this one reader is missing. When the two allocations
  succeed and \<^verbatim>\<open>_sc_add_reader\<close> accepts the reader, the round puts a reader with the
  number \<open>i\<close>, no handle and \<^verbatim>\<open>SC_MAX_SLOTS\<close> slots behind the readers already
  there, whatever happened in the rounds before. The readers present after round \<open>i\<close>
  are still there, in front, when the initialisation returns, and the loop goes on with
  the remaining indices.
\<close>

theorem init_alloc_failure:
  "fst (openct_reader_init K E ctx) = SC_NO_ERROR K \<and>
   info_queries (calls (snd (openct_reader_init K E ctx))) =
     info_queries (calls ctx) @ [0..<OPENCT_MAX_READERS K] \<and>
   (i < OPENCT_MAX_READERS K \<longrightarrow>
      round_start K E ctx (Suc i) =
        (if round_wanted E (round_query K E ctx i) i
         then snd (openct_add_reader K E (round_query K E ctx i) i
                     (round_arg E (round_query K E ctx i)))
         else round_query K E ctx i) \<and>
      (round_wanted E (round_query K E ctx i) i \<and> \<not> allocs_ok E (round_query K E ctx i) \<longrightarrow>
         fst (openct_add_reader K E (round_query K E ctx i) i
                (round_arg E (round_query K E ctx i))) = SC_ERROR_OUT_OF_MEMORY K \<and>
         reader (round_start K E ctx (Suc i)) = reader (round_start K E ctx i)) \<and>
      (round_wanted E (round_query K E ctx i) i \<and> allocs_ok E (round_query K E ctx i) \<and>
       0 \<le> sc_add_reader_rc E
             (register_trace (round_query K E ctx i) (round_arg E (round_query K E ctx i))) \<longrightarrow>
         fst (openct_add_reader K E (round_query K E ctx i) i
                (round_arg E (round_query K E ctx i))) = 0 \<and>
         (\<exists>r. reader (round_start K E ctx (Suc i)) = reader (round_start K E ctx i) @ [r] \<and>
              num (reader_drv_data r) = i \<and> h (reader_drv_data r) = None \<and>
              length (reader_slot r) = SC_MAX_SLOTS K)) \<and>
      (\<exists>zs. reader (snd (openct_reader_init K E ctx)) =
              reader (round_start K E ctx (Suc i)) @ zs) \<and>
      snd (openct_reader_init K E ctx) =
        init_loop K E (round_start K E ctx (Suc i)) [Suc i..<OPENCT_MAX_READERS K])"
proof -
  let ?q = "round_query K E ctx i"
  let ?a = "openct_add_reader K E ?q i (round_arg E ?q)"
  have rq: "reader ?q = reader (round_start K E ctx i)"
    by (simp add: round_query_def)
  have step: "round_start K E ctx (Suc i) =
      (if round_wanted E ?q i then snd ?a else ?q)"
    by (simp add: round_start_Suc round_query_def init_step_round)
  have oom: "fst ?a = SC_ERROR_OUT_OF_MEMORY K \<and>
      reader (round_start K E ctx (Suc i)) = reader (round_start K E ctx i)"
    if "round_wanted E ?q i \<and> \<not> allocs_ok E ?q"
    using that add_reader_oom [of E ?q K i "round_arg E ?q"] by (simp add: step rq)
  have ok: "fst ?a = 0 \<and>
      (\<exists>r. reader (round_start K E ctx (Suc i)) = reader (round_start K E ctx i) @ [r] \<and>
           num (reader_drv_data r) = i \<and> h (reader_drv_data r) = None \<and>
           length (reader_slot r) = SC_MAX_SLOTS K)"
    if w: "round_wanted E ?q i \<and> allocs_ok E ?q \<and>
       0 \<le> sc_add_reader_rc E (register_trace ?q (round_arg E ?q))"
  proof -
    from w have a: "allocs_ok E ?q"
      and b: "0 \<le> sc_add_reader_rc E (register_trace ?q (round_arg E ?q))" by simp_all
    from add_reader_ok [OF a b, of K i] obtain r where
      "fst ?a = 0" "reader (snd ?a) = reader ?q @ [r]"
      "reader_drv_data r = \<lparr>h = None, num = i, info = data_info (round_arg E ?q)\<rparr>"
      "length (reader_slot r) = SC_MAX_SLOTS K"
      by blast
    with w show ?thesis by (simp add: step rq)
  qed
  have fin: "snd (openct_reader_init K E ctx) =
      init_loop K E (round_start K E ctx (Suc i)) [Suc i..<OPENCT_MAX_READERS K]"
    if "i < OPENCT_MAX_READERS K"
    using init_loop_split [OF that] by (simp add: openct_reader_init_def)
  have kept: "\<exists>zs. reader (snd (openct_reader_init K E ctx)) =
      reader (round_start K E ctx (Suc i)) @ zs" if "i < OPENCT_MAX_READERS K"
    unfolding fin [OF that] by (rule init_loop_readers)
  have rc: "fst (openct_reader_init K E ctx) = SC_NO_ERROR K"
    by (simp add: openct_reader_init_def)
  have qs: "info_queries (calls (snd (openct_reader_init K E ctx))) =
     info_queries (calls ctx) @ [0..<OPENCT_MAX_READERS K]"
    by (simp add: openct_reader_init_def init_loop_queries)
  show ?thesis
    using rc qs step oom ok kept fin by blast
qed

theorem init_alloc_failure_witness:
  "fst (openct_reader_init K0 E_oom1 ctx0) = 0 \<and>
   fst (openct_add_reader K0 E_oom1 (round_query K0 E_oom1 ctx0 0) 0
          (round_arg E_oom1 (round_query K0 E_oom1 ctx0 0))) = - 1404 \<and>
   reader (round_start K0 E_oom1 ctx0 (Suc 0)) = [] \<and>
   (\<exists>r zs. reader (snd (openct_reader_init K0 E_oom1 ctx0)) = r # zs \<and>
           num (reader_drv_data r) = Suc 0)"
proof -
  have k: "SC_NO_ERROR K0 = 0" "SC_ERROR_OUT_OF_MEMORY K0 = - 1404"
    and b0: "0 < OPENCT_MAX_READERS K0" and b1: "Suc 0 < OPENCT_MAX_READERS K0"
    by (simp_all add: K0_def)
  have rs0: "round_start K0 E_oom1 c 0 = c" for c
    by (simp add: round_start_def)
  have q0: "round_query K0 E_oom1 ctx0 0 = \<lparr>calls = [CtReaderInfo 0], reader = []\<rparr>"
    by (simp add: round_query_def rs0 ctx0_def)
  have w0: "round_wanted E_oom1 (round_query K0 E_oom1 ctx0 0) 0"
    by (simp add: round_wanted_def PREALLOCATE_def)
  have a0: "\<not> allocs_ok E_oom1 (round_query K0 E_oom1 ctx0 0)"
    unfolding q0 by (simp add: allocs_ok_def E_oom1_def E_none_def)
  note t0 = init_alloc_failure [where K = K0 and E = E_oom1 and ctx = ctx0 and i = 0]
  note r0 = t0 [THEN conjunct1]
  note i0 = t0 [THEN conjunct2, THEN conjunct2, THEN mp, OF b0]
  note oom0 = i0 [THEN conjunct2, THEN conjunct1, THEN mp, OF conjI, OF w0 a0]
  from r0 have c1: "fst (openct_reader_init K0 E_oom1 ctx0) = 0"
    by (simp only: k)
  from oom0 have c2: "fst (openct_add_reader K0 E_oom1 (round_query K0 E_oom1 ctx0 0) 0
          (round_arg E_oom1 (round_query K0 E_oom1 ctx0 0))) = - 1404"
    by (simp only: k)
  from oom0 have "reader (round_start K0 E_oom1 ctx0 (Suc 0)) = reader ctx0"
    by (simp only: rs0)
  then have c3: "reader (round_start K0 E_oom1 ctx0 (Suc 0)) = []"
    by (simp add: ctx0_def)
  have ev: "snd (openct_add_reader K0 E_oom1 \<lparr>calls = [CtReaderInfo 0], reader = []\<rparr> 0 ci) =
      \<lparr>calls = [CtReaderInfo 0, Calloc], reader = []\<rparr>" for ci
    by (simp add: openct_add_reader_def E_oom1_def E_none_def)
  from i0 [THEN conjunct1] w0 have "round_start K0 E_oom1 ctx0 (Suc 0) =
      snd (openct_add_reader K0 E_oom1 (round_query K0 E_oom1 ctx0 0) 0
             (round_arg E_oom1 (round_query K0 E_oom1 ctx0 0)))"
    by simp
  then have rs1: "round_start K0 E_oom1 ctx0 (Suc 0) =
      \<lparr>calls = [CtReaderInfo 0, Calloc], reader = []\<rparr>"
    by (simp only: q0 ev)
  have q1: "round_query K0 E_oom1 ctx0 (Suc 0) =
      \<lparr>calls = [CtReaderInfo 0, Calloc, CtReaderInfo (Suc 0)], reader = []\<rparr>"
    by (simp add: round_query_def rs1)
  have w1: "round_wanted E_oom1 (round_query K0 E_oom1 ctx0 (Suc 0)) (Suc 0)"
    by (simp add: round_wanted_def PREALLOCATE_def)
  have a1: "allocs_ok E_oom1 (round_query K0 E_oom1 ctx0 (Suc 0))"
    unfolding q1 by (simp add: allocs_ok_def E_oom1_def E_none_def)
  have g1: "0 \<le> sc_add_reader_rc E_oom1
      (register_trace (round_query K0 E_oom1 ctx0 (Suc 0))
         (round_arg E_oom1 (round_query K0 E_oom1 ctx0 (Suc 0))))"
    by (simp add: E_oom1_def E_none_def)
  note t1 = init_alloc_failure [where K = K0 and E = E_oom1 and ctx = ctx0 and i = "Suc 0"]
  note i1 = t1 [THEN conjunct2, THEN conjunct2, THEN mp, OF b1]
  note ok1 = i1 [THEN conjunct2, THEN conjunct2, THEN conjunct1, THEN mp, OF conjI,
      OF w1 conjI, OF a1 g1, THEN conjunct2]
  note kept1 = i1 [THEN conjunct2, THEN conjunct2, THEN conjunct2, THEN conjunct1]
  from ok1 obtain r where
    r: "reader (round_start K0 E_oom1 ctx0 (Suc (Suc 0))) =
          reader (round_start K0 E_oom1 ctx0 (Suc 0)) @ [r]"
      "num (reader_drv_data r) = Suc 0"
    by blast
  from kept1 obtain zs where
    "reader (snd (openct_reader_init K0 E_oom1 ctx0)) =
       reader (round_start K0 E_oom1 ctx0 (Suc (Suc 0))) @ zs"
    by blast
  with r c3 have "reader (snd (openct_reader_init K0 E_oom1 ctx0)) = r # zs"
    by simp
  with r(2) have c4: "\<exists>r zs. reader (snd (openct_reader_init K0 E_oom1 ctx0)) = r # zs \<and>
           num (reader_drv_data r) = Suc 0"
    by blast
  from c1 c2 c3 c4 show ?thesis by blast
qed

text \<open>
  The claim as stated has the out-of-memory condition reach the caller of the
  initialisation when the very first allocation fails. In a world where it does,
  \<open>openct_add_reader\<close> returns \<^verbatim>\<open>SC_ERROR_OUT_OF_MEMORY\<close> for reader 0 and
  \<open>openct_reader_init\<close> returns \<^verbatim>\<open>SC_NO_ERROR\<close>.
\<close>

theorem init_alloc_failure_counterexample:
  "\<not> calloc_ok E_oom1 [CtReaderInfo 0, Calloc] \<and>
   openct_add_reader K0 E_oom1 \<lparr>calls = [CtReaderInfo 0], reader = []\<rparr> 0 None =
     (SC_ERROR_OUT_OF_MEMORY K0, \<lparr>calls = [CtReaderInfo 0, Calloc], reader = []\<rparr>) \<and>
   fst (openct_reader_init K0 E_oom1 \<lparr>calls = [], reader = []\<rparr>) = SC_NO_ERROR K0 \<and>
   SC_NO_ERROR K0 \<noteq> SC_ERROR_OUT_OF_MEMORY K0"
  by (simp add: openct_add_reader_def openct_reader_init_def E_oom1_def E_none_def K0_def)

end
